theory Spec2Isabelle
  imports Complex_Main
begin

chapter \<open>kintone-backup-scheduler: the backup and restore engine\<close>

text \<open>
  A shallow embedding of the backup/restore core of the repository:
  \<^item> \<^verbatim>\<open>src/core/kintoneClient.js\<close>: the retry policy and the business-key resolution;
  \<^item> \<^verbatim>\<open>src/core/database.js\<close>: the metadata store;
  \<^item> \<^verbatim>\<open>src/core/backupManager.js\<close>: record cleaning, the backup run, the archive codec
    and the restore reconciliation.
  Each definition keeps the name of the JavaScript function it embeds. Calls that leave
  the process (the remote service, the file system, a failing SQL statement) are
  answered by an explicit environment argument, and an exception is the \<open>Inl\<close> side
  of a sum.
\<close>

section \<open>Retry policy (kintoneClient.js, RETRY\_CONFIG and setupAxiosRetry)\<close>

text \<open>
  \<^verbatim>\<open>RETRY_CONFIG = { maxRetries: 5, initialDelay: 1000, maxDelay: 32000,
     backoffMultiplier: 2, retryableStatusCodes: [429, 500, 502, 503, 504] }\<close>
  Delays are milliseconds. JavaScript numbers are doubles; the model computes in exact
  arithmetic. The attempt counter is an integer and \<^verbatim>\<open>Math.pow(2, retryCount - 1)\<close>
  is the integer power \<open>powi\<close>, so that attempt 0 gives one half as in JavaScript.
\<close>

definition maxRetries :: int where
  "maxRetries = 5"

definition initialDelay :: real where
  "initialDelay = 1000"

definition maxDelay :: real where
  "maxDelay = 32000"

definition backoffMultiplier :: real where
  "backoffMultiplier = 2"

definition retryableStatusCodes :: "nat list" where
  "retryableStatusCodes = [429, 500, 502, 503, 504]"

text \<open>
  The first statement of \<^verbatim>\<open>retryDelay\<close>:
  \<^verbatim>\<open>const delay = Math.min(initialDelay * Math.pow(backoffMultiplier, retryCount - 1), maxDelay)\<close>
\<close>

definition base_delay :: "int \<Rightarrow> real" where
  "base_delay retryCount =
     min (initialDelay * (backoffMultiplier powi (retryCount - 1))) maxDelay"

text \<open>
  \<^verbatim>\<open>const jitter = delay * 0.2 * (Math.random() * 2 - 1); return delay + jitter\<close>
  The draw of \<^verbatim>\<open>Math.random()\<close>, a number in \<open>[0, 1)\<close>, is the argument \<open>rnd\<close>.
\<close>

definition retryDelay :: "real \<Rightarrow> int \<Rightarrow> real" where
  "retryDelay rnd retryCount =
     (let delay = base_delay retryCount;
          jitter = delay * 0.2 * (rnd * 2 - 1)
      in delay + jitter)"

text \<open>
  The error handed to \<^verbatim>\<open>retryCondition\<close>. \<open>response\<close> is \<^verbatim>\<open>error.response\<close>
  (absent for a network failure), with its status and its \<^verbatim>\<open>retry-after\<close> header;
  \<open>network_or_idempotent\<close> is the answer of the library predicate
  \<^verbatim>\<open>axiosRetry.isNetworkOrIdempotentRequestError(error)\<close>.
\<close>

record http_response =
  status_code :: nat
  retry_after :: "string option"

record request_error =
  response :: "http_response option"
  network_or_idempotent :: bool

text \<open>
  \<^verbatim>\<open>parseInt(string)\<close> with no radix: white space at the front is skipped, a sign is
  read, the prefix \<^verbatim>\<open>0x\<close> or \<^verbatim>\<open>0X\<close> selects base 16 and anything else base 10, and the
  digits up to the first character that is not one are the number; \<open>None\<close> is \<^verbatim>\<open>NaN\<close>
  (no digit). The white space of the language is the ASCII characters 9 to 13 and 32 and
  the code points U+00A0, U+1680, U+2000 to U+200A, U+2028, U+2029, U+202F, U+205F,
  U+3000 and U+FEFF, here in their UTF-8 bytes. The value is an exact integer.
\<close>

definition digit_val :: "char \<Rightarrow> nat option" where
  "digit_val c =
     (let v = (of_char c :: nat) in if 48 \<le> v \<and> v \<le> 57 then Some (v - 48) else None)"

definition hex_val :: "char \<Rightarrow> nat option" where
  "hex_val c =
     (let n = (of_char c :: nat) in
      if 48 \<le> n \<and> n \<le> 57 then Some (n - 48)
      else if 97 \<le> n \<and> n \<le> 102 then Some (n - 87)
      else if 65 \<le> n \<and> n \<le> 70 then Some (n - 55)
      else None)"

fun parse_digits :: "nat \<Rightarrow> string \<Rightarrow> nat" where
  "parse_digits acc [] = acc"
| "parse_digits acc (c # cs) =
     (case digit_val c of None \<Rightarrow> acc | Some d \<Rightarrow> parse_digits (acc * 10 + d) cs)"

fun parse_hex_digits :: "nat \<Rightarrow> string \<Rightarrow> nat" where
  "parse_hex_digits acc [] = acc"
| "parse_hex_digits acc (c # cs) =
     (case hex_val c of None \<Rightarrow> acc | Some d \<Rightarrow> parse_hex_digits (acc * 16 + d) cs)"

definition ascii_space :: "char \<Rightarrow> bool" where
  "ascii_space c = ((9 \<le> (of_char c :: nat) \<and> (of_char c :: nat) \<le> 13) \<or> c = CHR '' '')"

definition two_byte_space :: "char \<Rightarrow> char \<Rightarrow> bool" where
  "two_byte_space a b = (a = CHR 0xC2 \<and> b = CHR 0xA0)"

definition three_byte_space :: "char \<Rightarrow> char \<Rightarrow> char \<Rightarrow> bool" where
  "three_byte_space a b c =
     ((a = CHR 0xE1 \<and> b = CHR 0x9A \<and> c = CHR 0x80) \<or>
      (a = CHR 0xE2 \<and> b = CHR 0x80 \<and>
         ((0x80 \<le> (of_char c :: nat) \<and> (of_char c :: nat) \<le> 0x8A) \<or>
          c = CHR 0xA8 \<or> c = CHR 0xA9 \<or> c = CHR 0xAF)) \<or>
      (a = CHR 0xE2 \<and> b = CHR 0x81 \<and> c = CHR 0x9F) \<or>
      (a = CHR 0xE3 \<and> b = CHR 0x80 \<and> c = CHR 0x80) \<or>
      (a = CHR 0xEF \<and> b = CHR 0xBB \<and> c = CHR 0xBF))"

fun skip_space :: "string \<Rightarrow> string" where
  "skip_space (a # b # c # rest) =
     (if ascii_space a then skip_space (b # c # rest)
      else if two_byte_space a b then skip_space (c # rest)
      else if three_byte_space a b c then skip_space rest
      else a # b # c # rest)"
| "skip_space [a, b] =
     (if ascii_space a then skip_space [b]
      else if two_byte_space a b then []
      else [a, b])"
| "skip_space [a] = (if ascii_space a then [] else [a])"
| "skip_space [] = []"

definition parseInt :: "string \<Rightarrow> int option" where
  "parseInt s =
     (let t = skip_space s;
          negative = (take 1 t = ''-'');
          u = (if take 1 t = ''-'' \<or> take 1 t = ''+'' then drop 1 t else t);
          hex = (take 2 u = ''0x'' \<or> take 2 u = ''0X'');
          magnitude =
            (if hex then
               (if takeWhile (\<lambda>c. hex_val c \<noteq> None) (drop 2 u) = [] then None
                else Some (parse_hex_digits 0 (drop 2 u)))
             else
               (if takeWhile (\<lambda>c. digit_val c \<noteq> None) u = [] then None
                else Some (parse_digits 0 u)))
      in map_option (\<lambda>m. if negative then - int m else int m) magnitude)"

text \<open>
  The local \<^verbatim>\<open>waitTime\<close> of \<^verbatim>\<open>retryCondition\<close>, computed when the status is 429
  and the header is a non-empty string: \<^verbatim>\<open>parseInt(retryAfter) * 1000\<close>.
\<close>

definition waitTime :: "request_error \<Rightarrow> real option" where
  "waitTime err =
     (case response err of
        None \<Rightarrow> None
      | Some r \<Rightarrow>
          if status_code r = 429 then
            (case retry_after r of
               None \<Rightarrow> None
             | Some h \<Rightarrow>
                 if h = [] then None else map_option (\<lambda>s. real_of_int s * 1000) (parseInt h))
          else None)"

text \<open>
  \<^verbatim>\<open>retryCondition\<close> returns a boolean only. In the 429 branch it binds \<open>waitTime\<close>,
  logs, and returns \<^verbatim>\<open>true\<close>; the bound value is not returned and not stored.
  (The increment of \<^verbatim>\<open>this.retryCount\<close> is in \<open>retry_step\<close> below.)
\<close>

definition retryCondition :: "request_error \<Rightarrow> bool" where
  "retryCondition err =
     (case response err of
        Some r \<Rightarrow>
          if status_code r = 429 \<and> (case retry_after r of None \<Rightarrow> False | Some h \<Rightarrow> h \<noteq> [])
          then True
          else network_or_idempotent err \<or> status_code r \<in> set retryableStatusCodes
      | None \<Rightarrow> network_or_idempotent err)"

text \<open>
  One failed attempt under axios-retry, configured by \<^verbatim>\<open>setupAxiosRetry\<close>: with
  \<open>n\<close> retries already made, the library asks \<^verbatim>\<open>retryCondition\<close> while
  \<open>n < retries\<close>, and on \<^verbatim>\<open>true\<close> waits \<^verbatim>\<open>retryDelay(n + 1, error)\<close> before
  the next attempt. The result is the client's retry counter and the delay waited,
  \<open>None\<close> when the error is surfaced to the caller.
\<close>

definition retry_step :: "real \<Rightarrow> nat \<Rightarrow> int \<Rightarrow> request_error \<Rightarrow> nat \<times> real option" where
  "retry_step rnd counter n err =
     (if n < maxRetries then
        (if retryCondition err then (counter + 1, Some (retryDelay rnd (n + 1)))
         else (counter + 1, None))
      else (counter, None))"

section \<open>Records as JSON values\<close>

text \<open>
  A record is what \<^verbatim>\<open>JSON.parse\<close> gives: an object from field codes to field
  objects \<^verbatim>\<open>{ type, value }\<close>. An object is the list of its entries in the order of
  \<^verbatim>\<open>Object.entries\<close>; its keys are distinct. Numbers are integers here (kintone sends
  every scalar field value as a string).
\<close>

datatype jvalue =
    JNull
  | JBool bool
  | JNum int
  | JStr string
  | JArr "jvalue list"
  | JObj "(string \<times> jvalue) list"

type_synonym kintone_record = "(string \<times> jvalue) list"

text \<open>
  Reading a property: \<open>None\<close> is \<^verbatim>\<open>undefined\<close>. Only objects have properties in the
  model (no field code names a built-in property of a string or an array).
\<close>

fun get_prop :: "jvalue \<Rightarrow> string \<Rightarrow> jvalue option" where
  "get_prop (JObj kvs) k = map_of kvs k"
| "get_prop _ k = None"

text \<open>The optional chain \<^verbatim>\<open>rec?.[k]?.value\<close>, and \<^verbatim>\<open>rec[k] && rec[k].value\<close>.\<close>

definition field_value :: "kintone_record \<Rightarrow> string \<Rightarrow> jvalue option" where
  "field_value record k = (case map_of record k of None \<Rightarrow> None | Some f \<Rightarrow> get_prop f ''value'')"

text \<open>JavaScript truthiness; \<^verbatim>\<open>undefined\<close> is falsy.\<close>

fun truthy :: "jvalue \<Rightarrow> bool" where
  "truthy JNull = False"
| "truthy (JBool b) = b"
| "truthy (JNum n) = (n \<noteq> 0)"
| "truthy (JStr s) = (s \<noteq> [])"
| "truthy (JArr xs) = True"
| "truthy (JObj kvs) = True"

definition truthy_opt :: "jvalue option \<Rightarrow> bool" where
  "truthy_opt v = (case v of None \<Rightarrow> False | Some x \<Rightarrow> truthy x)"

text \<open>\<^verbatim>\<open>typeof v === 'object'\<close>: objects, arrays and \<^verbatim>\<open>null\<close>.\<close>

fun typeof_object :: "jvalue \<Rightarrow> bool" where
  "typeof_object JNull = True"
| "typeof_object (JArr xs) = True"
| "typeof_object (JObj kvs) = True"
| "typeof_object _ = False"

text \<open>
  Assignment \<^verbatim>\<open>obj[k] = v\<close>: an existing key keeps its place and takes the new
  value, a new key goes to the end.
\<close>

fun obj_set :: "(string \<times> 'v) list \<Rightarrow> string \<Rightarrow> 'v \<Rightarrow> (string \<times> 'v) list" where
  "obj_set [] k v = [(k, v)]"
| "obj_set ((k', v') # kvs) k v =
     (if k' = k then (k, v) # kvs else (k', v') # obj_set kvs k v)"

text \<open>
  The same assignment where the key can be any field code of an archived record and
  the object was made by the literal \<^verbatim>\<open>{}\<close>. On such an object \<^verbatim>\<open>__proto__\<close> is the
  inherited prototype accessor: assigning to it sets or leaves the prototype and adds no
  entry. (\<^verbatim>\<open>JSON.parse\<close> does make an entry of that name, so a record can have one.)
\<close>

definition js_assign :: "(string \<times> 'v) list \<Rightarrow> string \<Rightarrow> 'v \<Rightarrow> (string \<times> 'v) list" where
  "js_assign obj k v = (if k = ''__proto__'' then obj else obj_set obj k v)"

section \<open>Cleaning a record for restore (backupManager.js)\<close>

text \<open>
  The Japanese field codes of the source are written as their UTF-8 bytes.
  \<open>record_number_ja\<close> is the six-character Japanese default code of the record
  number field (U+30EC U+30B3 U+30FC U+30C9 U+756A U+53F7), \<open>updated_time_ja\<close> the
  four-character code of the updated-time field (U+66F4 U+65B0 U+65E5 U+6642).
\<close>

definition record_number_ja :: string where
  "record_number_ja =
     [CHR 0xE3, CHR 0x83, CHR 0xAC, CHR 0xE3, CHR 0x82, CHR 0xB3, CHR 0xE3, CHR 0x83, CHR 0xBC,
      CHR 0xE3, CHR 0x83, CHR 0x89, CHR 0xE7, CHR 0x95, CHR 0xAA, CHR 0xE5, CHR 0x8F, CHR 0xB7]"

definition updated_time_ja :: string where
  "updated_time_ja =
     [CHR 0xE6, CHR 0x9B, CHR 0xB4, CHR 0xE6, CHR 0x96, CHR 0xB0,
      CHR 0xE6, CHR 0x97, CHR 0xA5, CHR 0xE6, CHR 0x99, CHR 0x82]"

definition SYSTEM_FIELDS :: "string list" where
  "SYSTEM_FIELDS =
     [''RECORD_NUMBER'', ''__ID__'', ''__REVISION__'', ''CREATOR'', ''CREATED_TIME'',
      ''MODIFIER'', ''UPDATED_TIME'', ''STATUS'', ''STATUS_ASSIGNEE'', ''$id'', ''$revision'']"

definition READONLY_FIELD_TYPES :: "string list" where
  "READONLY_FIELD_TYPES =
     [''RECORD_NUMBER'', ''CREATOR'', ''CREATED_TIME'', ''MODIFIER'', ''UPDATED_TIME'',
      ''STATUS'', ''STATUS_ASSIGNEE'', ''__ID__'', ''__REVISION__'', ''CALC'', ''CATEGORY'']"

text \<open>
  The second test of the loop body:
  \<^verbatim>\<open>fieldValue && typeof fieldValue === 'object' && fieldValue.type\<close> and then
  \<^verbatim>\<open>READONLY_FIELD_TYPES.includes(fieldValue.type)\<close> (strict equality with a string).
\<close>

definition readonly_typed :: "jvalue \<Rightarrow> bool" where
  "readonly_typed fieldValue =
     (truthy fieldValue \<and> typeof_object fieldValue \<and>
      (case get_prop fieldValue ''type'' of
         Some (JStr fieldType) \<Rightarrow> fieldType \<noteq> [] \<and> fieldType \<in> set READONLY_FIELD_TYPES
       | _ \<Rightarrow> False))"

text \<open>
  The loop \<^verbatim>\<open>for (const [fieldCode, fieldValue] of Object.entries(record))\<close> with the
  object \<^verbatim>\<open>cleanRecord\<close> under construction as accumulator. The last statement of
  the body is \<^verbatim>\<open>cleanRecord[fieldCode] = fieldValue\<close>.
\<close>

fun clean_loop :: "kintone_record \<Rightarrow> kintone_record \<Rightarrow> kintone_record" where
  "clean_loop cleanRecord [] = cleanRecord"
| "clean_loop cleanRecord ((fieldCode, fieldValue) # rest) =
     (if fieldCode \<in> set SYSTEM_FIELDS then clean_loop cleanRecord rest
      else if readonly_typed fieldValue then clean_loop cleanRecord rest
      else clean_loop (js_assign cleanRecord fieldCode fieldValue) rest)"

definition cleanRecordForRestore :: "kintone_record \<Rightarrow> kintone_record" where
  "cleanRecordForRestore record = clean_loop [] record"

text \<open>
  Where fields occur below the top level: a table field (type \<^verbatim>\<open>SUBTABLE\<close>) has as
  value an array of rows \<^verbatim>\<open>{ id, value: { code: { type, value }, ... } }\<close>, and a row
  may hold computed (\<^verbatim>\<open>CALC\<close>) fields. \<open>row_fields\<close> lists the fields in the rows of one
  field object, \<open>fields_at_any_depth\<close> the fields of a record at both levels.
\<close>

definition row_fields :: "jvalue \<Rightarrow> kintone_record" where
  "row_fields fieldValue =
     (case get_prop fieldValue ''value'' of
        Some (JArr rows) \<Rightarrow>
          concat (map (\<lambda>row. case get_prop row ''value'' of Some (JObj fs) \<Rightarrow> fs | _ \<Rightarrow> []) rows)
      | _ \<Rightarrow> [])"

definition fields_at_any_depth :: "kintone_record \<Rightarrow> kintone_record" where
  "fields_at_any_depth record = record @ concat (map (\<lambda>(k, v). row_fields v) record)"

text \<open>What must not be sent back: a system field code or a read-only type tag.\<close>

definition stripped_kind :: "string \<times> jvalue \<Rightarrow> bool" where
  "stripped_kind f = (fst f \<in> set SYSTEM_FIELDS \<or> readonly_typed (snd f))"

section \<open>The metadata store (database.js)\<close>

text \<open>
  Three tables, each the list of its rows in insertion order. A nullable column is an
  \<open>option\<close>. The status column holds one of four Japanese words, here \<open>Running\<close>,
  \<open>Success\<close>, \<open>PartialSuccess\<close> and \<open>Failure\<close>; the backup type column holds the
  word for a full or for a differential backup.
\<close>

datatype js_error = Error string | TypeError string

datatype run_status = Running | Success | PartialSuccess | Failure

datatype backup_kind = Full | Differential

record backup_row =
  backup_id :: int
  app_id :: string
  app_name :: "string option"
  backup_type :: backup_kind
  trigger_type :: string
  start_time :: string
  end_time :: "string option"
  duration_seconds :: "real option"
  record_count :: "nat option"
  file_path :: "string option"
  data_size_mb :: "real option"
  compression_ratio :: "real option"
  status :: run_status
  error_details :: "string option"
  api_request_count :: nat
  retry_count :: nat
  diff_base_datetime :: "string option"
  hostname :: string
  app_version :: string

record app_row =
  a_app_id :: string
  a_app_name :: "string option"
  a_is_active :: bool
  a_last_backup_datetime :: "string option"
  a_last_full_backup_datetime :: "string option"

record index_row =
  ri_app_id :: string
  ri_record_id :: string
  ri_updated_time :: string
  ri_last_backup_id :: "int option"

text \<open>\<open>backups_seq\<close> is the AUTOINCREMENT counter of the backups table.\<close>

record db =
  backups :: "backup_row list"
  backups_seq :: int
  apps :: "app_row list"
  record_index :: "index_row list"

text \<open>
  \<^verbatim>\<open>insertBackup\<close>, with the columns \<^verbatim>\<open>backupApp\<close> passes; the columns it leaves
  \<^verbatim>\<open>undefined\<close> are bound as NULL, and the two counters default to 0. The result is
  \<^verbatim>\<open>lastInsertRowid\<close> and the new store.
\<close>

definition insertBackup ::
  "db \<Rightarrow> string \<Rightarrow> backup_kind \<Rightarrow> string \<Rightarrow> string \<Rightarrow> string \<Rightarrow> string \<Rightarrow> int \<times> db" where
  "insertBackup d appId kind trigger startTime host version =
     (let rowid = backups_seq d + 1;
          row = \<lparr>backup_id = rowid, app_id = appId, app_name = Some [],
                 backup_type = kind, trigger_type = trigger, start_time = startTime,
                 end_time = None, duration_seconds = None, record_count = None,
                 file_path = None, data_size_mb = None, compression_ratio = None,
                 status = Running, error_details = None, api_request_count = 0,
                 retry_count = 0, diff_base_datetime = None, hostname = host,
                 app_version = version\<rparr>
      in (rowid, d\<lparr>backups := backups d @ [row], backups_seq := rowid\<rparr>))"

text \<open>
  \<^verbatim>\<open>updateBackup(backupId, updateData)\<close>: \<^verbatim>\<open>UPDATE backups SET ... WHERE id = ?\<close>.
  The SET clause built from the keys of \<^verbatim>\<open>updateData\<close> is the function \<open>upd\<close>.
\<close>

definition updateBackup :: "db \<Rightarrow> int \<Rightarrow> (backup_row \<Rightarrow> backup_row) \<Rightarrow> db" where
  "updateBackup d backupId upd =
     d\<lparr>backups := map (\<lambda>r. if backup_id r = backupId then upd r else r) (backups d)\<rparr>"

definition getBackupById :: "db \<Rightarrow> int \<Rightarrow> backup_row option" where
  "getBackupById d backupId = find (\<lambda>r. backup_id r = backupId) (backups d)"

text \<open>
  \<^verbatim>\<open>deleteBackup\<close> runs two statements, each in its own implicit transaction:
  \<^verbatim>\<open>DELETE FROM record_index WHERE last_backup_id = ?\<close> and then
  \<^verbatim>\<open>DELETE FROM backups WHERE id = ?\<close>. A statement that throws changes nothing and
  ends the function. \<open>faults\<close> says, for the first and the second statement, whether
  it throws; the result is the exception, if any, and the store left behind.
\<close>

definition delete_index_rows :: "int \<Rightarrow> db \<Rightarrow> db" where
  "delete_index_rows backupId d =
     d\<lparr>record_index := filter (\<lambda>m. ri_last_backup_id m \<noteq> Some backupId) (record_index d)\<rparr>"

definition delete_backup_rows :: "int \<Rightarrow> db \<Rightarrow> db" where
  "delete_backup_rows backupId d =
     d\<lparr>backups := filter (\<lambda>r. backup_id r \<noteq> backupId) (backups d)\<rparr>"

definition deleteBackup ::
  "js_error option \<times> js_error option \<Rightarrow> int \<Rightarrow> db \<Rightarrow> js_error option \<times> db" where
  "deleteBackup faults backupId d =
     (case fst faults of
        Some e \<Rightarrow> (Some e, d)
      | None \<Rightarrow>
          (let d1 = delete_index_rows backupId d in
           case snd faults of
             Some e \<Rightarrow> (Some e, d1)
           | None \<Rightarrow> (None, delete_backup_rows backupId d1)))"

text \<open>
  \<^verbatim>\<open>transaction(callback)\<close>: better-sqlite3 runs the callback between BEGIN and
  COMMIT, and rolls back and rethrows when the callback throws.
\<close>

definition transaction :: "(db \<Rightarrow> js_error option \<times> db) \<Rightarrow> db \<Rightarrow> js_error option \<times> db" where
  "transaction callback d =
     (case callback d of
        (Some e, d') \<Rightarrow> (Some e, d)
      | (None, d') \<Rightarrow> (None, d'))"

text \<open>
  \<^verbatim>\<open>updateAppLastBackup(appId, backupDatetime, isFullBackup)\<close>:
  \<^verbatim>\<open>UPDATE apps SET last_backup_datetime = ? [, last_full_backup_datetime = ?] WHERE app_id = ?\<close>.
\<close>

definition updateAppLastBackup :: "db \<Rightarrow> string \<Rightarrow> string \<Rightarrow> bool \<Rightarrow> db" where
  "updateAppLastBackup d appId backupDatetime isFullBackup =
     d\<lparr>apps := map (\<lambda>a. if a_app_id a = appId then
                   (if isFullBackup
                    then a\<lparr>a_last_backup_datetime := Some backupDatetime,
                           a_last_full_backup_datetime := Some backupDatetime\<rparr>
                    else a\<lparr>a_last_backup_datetime := Some backupDatetime\<rparr>)
                 else a) (apps d)\<rparr>"

text \<open>
  \<^verbatim>\<open>upsertRecordIndex\<close>: insert, or on a conflict on \<^verbatim>\<open>(app_id, record_id)\<close> update
  the time and the run of the existing row.
\<close>

fun upsert_index_row :: "index_row list \<Rightarrow> index_row \<Rightarrow> index_row list" where
  "upsert_index_row [] new = [new]"
| "upsert_index_row (m # ms) new =
     (if ri_app_id m = ri_app_id new \<and> ri_record_id m = ri_record_id new
      then m\<lparr>ri_updated_time := ri_updated_time new,
              ri_last_backup_id := ri_last_backup_id new\<rparr> # ms
      else m # upsert_index_row ms new)"

definition upsertRecordIndex :: "db \<Rightarrow> string \<Rightarrow> string \<Rightarrow> string \<Rightarrow> int \<Rightarrow> db" where
  "upsertRecordIndex d appId recordId updatedTime backupId =
     d\<lparr>record_index := upsert_index_row (record_index d)
          \<lparr>ri_app_id = appId, ri_record_id = recordId, ri_updated_time = updatedTime,
           ri_last_backup_id = Some backupId\<rparr>\<rparr>"

text \<open>
  \<^verbatim>\<open>getLastBackupDatetime\<close>: the two time columns of the app's row, \<open>None\<close>
  (\<^verbatim>\<open>undefined\<close>) when the app has no row.
\<close>

definition getLastBackupDatetime :: "db \<Rightarrow> string \<Rightarrow> (string option \<times> string option) option" where
  "getLastBackupDatetime d appId =
     map_option (\<lambda>a. (a_last_backup_datetime a, a_last_full_backup_datetime a))
       (find (\<lambda>a. a_app_id a = appId) (apps d))"

section \<open>One backup run (backupManager.js, backupApp)\<close>

text \<open>
  What the run receives from outside the process is a \<open>backup_env\<close>: the clock
  readings, the answers of the remote client, the outcome of writing the archive, of
  the attachment pass and of \<^verbatim>\<open>fs.stat\<close>, the client's counters, and the stack trace
  the runtime attached to an exception (\<^verbatim>\<open>error.stack\<close>, empty when there is none).
  \<open>Inl\<close> is a thrown exception.
\<close>

record backup_options =
  backupType :: backup_kind
  triggerType :: string
  opt_hostname :: string
  appVersion :: string

record backup_env =
  now_start :: "string \<times> nat"
  now_zip :: string
  now_end :: "string \<times> nat"
  remote_getApp :: "string \<Rightarrow> js_error + string"
  remote_getAllRecords :: "string \<Rightarrow> js_error + kintone_record list"
  remote_getDifferentialRecords :: "string \<Rightarrow> string \<Rightarrow> js_error + kintone_record list"
  fs_createBackupZip :: "string \<Rightarrow> kintone_record list \<Rightarrow> string \<Rightarrow> js_error + nat"
  run_downloadAttachments :: "string \<Rightarrow> kintone_record list \<Rightarrow> string \<Rightarrow> js_error option"
  fs_stat_size :: "string \<Rightarrow> js_error + nat"
  client_stats :: "nat \<times> nat"
  stack_of :: "js_error \<Rightarrow> string"

record backup_result =
  res_appId :: string
  res_appName :: string
  res_success :: bool
  res_recordCount :: nat
  res_filePath :: "string option"

text \<open>What a run does outside the store, in order.\<close>

datatype effect = ArchiveWritten string | AttachmentsFetched | AuditLogged run_status

text \<open>
  Lines 616 to 631: which records are fetched. The result is \<^verbatim>\<open>diffBaseDatetime\<close>
  and the answer of the remote call made. \<^verbatim>\<open>lastBackup && lastBackup.last_backup_datetime\<close>
  holds when the app has a row whose column is a non-empty string.
\<close>

definition determine_records ::
  "backup_env \<Rightarrow> db \<Rightarrow> string \<Rightarrow> backup_kind \<Rightarrow> string option \<times> (js_error + kintone_record list)" where
  "determine_records env d appId kind =
     (if kind = Differential then
        (case getLastBackupDatetime d appId of
           Some (Some last_backup_datetime, full) \<Rightarrow>
             if last_backup_datetime \<noteq> []
             then (Some last_backup_datetime,
                   remote_getDifferentialRecords env appId last_backup_datetime)
             else (None, remote_getAllRecords env appId)
         | _ \<Rightarrow> (None, remote_getAllRecords env appId))
      else (None, remote_getAllRecords env appId))"

text \<open>The decimal digits of a number.\<close>

fun digits_of :: "nat \<Rightarrow> string" where
  "digits_of n =
     (if n < 10 then [char_of (48 + n)] else digits_of (n div 10) @ [char_of (48 + n mod 10)])"

declare digits_of.simps [simp del]

definition string_of_int :: "int \<Rightarrow> string" where
  "string_of_int i = (if i < 0 then CHR ''-'' # digits_of (nat (- i)) else digits_of (nat i))"

text \<open>
  A JavaScript number is bound as a REAL, and a TEXT column stores a REAL as the text
  SQLite prints for it with the format \<^verbatim>\<open>%!.15g\<close>: a whole number below \<open>10^15\<close> as
  its digits followed by \<^verbatim>\<open>.0\<close>, a larger one with a mantissa of at most 15
  significant digits and an exponent.
\<close>

fun strip_zeros :: "string \<Rightarrow> string" where
  "strip_zeros [] = []"
| "strip_zeros (c # cs) =
     (let r = strip_zeros cs in if r = [] \<and> c = CHR ''0'' then [] else c # r)"

definition exponent_text :: "nat \<Rightarrow> string" where
  "exponent_text a =
     (let e = length (digits_of a) - 1;
          scaled = (a + 5 * 10 ^ (e - 15)) div 10 ^ (e - 14);
          m = (if scaled < 10 ^ 15 then scaled else scaled div 10);
          e' = (if scaled < 10 ^ 15 then e else e + 1);
          ds = digits_of m;
          fraction = strip_zeros (tl ds)
      in [hd ds] @ ''.'' @ (if fraction = [] then ''0'' else fraction) @
         ''e+'' @ (if e' < 10 then ''0'' else []) @ digits_of e')"

definition real_text :: "int \<Rightarrow> string" where
  "real_text n =
     (if n < 0 then ''-'' else []) @
     (if nat \<bar>n\<bar> < 10 ^ 15 then digits_of (nat \<bar>n\<bar>) @ ''.0''
      else exponent_text (nat \<bar>n\<bar>))"

text \<open>
  Binding a value to a TEXT NOT NULL parameter: a string or a number is stored, anything
  else (a boolean, an array, an object, \<^verbatim>\<open>null\<close>, \<^verbatim>\<open>undefined\<close>) makes the statement
  throw.
\<close>

definition bind_text :: "jvalue option \<Rightarrow> js_error + string" where
  "bind_text v =
     (case v of
        Some (JStr s) \<Rightarrow> Inr s
      | Some (JNum n) \<Rightarrow> Inr (real_text n)
      | _ \<Rightarrow> Inl (TypeError ''cannot bind value''))"

text \<open>\<^verbatim>\<open>a || b\<close> on values that may be \<^verbatim>\<open>undefined\<close>.\<close>

definition js_or :: "jvalue option \<Rightarrow> jvalue option \<Rightarrow> jvalue option" where
  "js_or a b = (if truthy_opt a then a else b)"

text \<open>\<^verbatim>\<open>record.$id.value\<close>: a TypeError when the record has no \<^verbatim>\<open>$id\<close>.\<close>

definition id_value :: "kintone_record \<Rightarrow> js_error + jvalue option" where
  "id_value r =
     (case map_of r ''$id'' of
        None \<Rightarrow> Inl (TypeError ''Cannot read properties of undefined'')
      | Some JNull \<Rightarrow> Inl (TypeError ''Cannot read properties of null'')
      | Some f \<Rightarrow> Inr (get_prop f ''value''))"

text \<open>
  The loop over the fetched records that upserts one marker per record:
  \<^verbatim>\<open>updatedTime = record.$revision?.value || record.\<close>(updated time)\<^verbatim>\<open>?.value || startTime\<close>.
\<close>

fun index_loop ::
  "db \<Rightarrow> string \<Rightarrow> int \<Rightarrow> string \<Rightarrow> kintone_record list \<Rightarrow> js_error option \<times> db" where
  "index_loop d appId cur startTime [] = (None, d)"
| "index_loop d appId cur startTime (r # rs) =
     (let updatedTime = js_or (js_or (field_value r ''$revision'') (field_value r updated_time_ja))
                          (Some (JStr startTime))
      in case id_value r of
           Inl e \<Rightarrow> (Some e, d)
         | Inr rid \<Rightarrow>
             (case bind_text rid of
                Inl e \<Rightarrow> (Some e, d)
              | Inr recordId \<Rightarrow>
                  (case bind_text updatedTime of
                     Inl e \<Rightarrow> (Some e, d)
                   | Inr t \<Rightarrow> index_loop (upsertRecordIndex d appId recordId t cur)
                               appId cur startTime rs)))"

text \<open>
  The archive's file name: \<^verbatim>\<open>toISOString().replace(/[:.]/g, '-').replace('T', '_').substring(0, 19)\<close>
  between the app id and the backup type.
\<close>

fun replace_first :: "char \<Rightarrow> char \<Rightarrow> string \<Rightarrow> string" where
  "replace_first a b [] = []"
| "replace_first a b (c # cs) = (if c = a then b # cs else c # replace_first a b cs)"

definition zip_timestamp :: "string \<Rightarrow> string" where
  "zip_timestamp isoString =
     take 19 (replace_first CHR ''T'' CHR ''_''
       (map (\<lambda>c. if c = CHR '':'' \<or> c = CHR ''.'' then CHR ''-'' else c) isoString))"

definition kind_name :: "backup_kind \<Rightarrow> string" where
  "kind_name k = (case k of Full \<Rightarrow> ''full'' | Differential \<Rightarrow> ''differential'')"

definition zipFileName :: "string \<Rightarrow> string \<Rightarrow> backup_kind \<Rightarrow> string" where
  "zipFileName appId timestamp kind =
     ''app_'' @ appId @ ''_'' @ timestamp @ ''_'' @ kind_name kind @ ''.zip''"

text \<open>\<^verbatim>\<open>x.toFixed(2)\<close> read back as a number.\<close>

definition toFixed2 :: "real \<Rightarrow> real" where
  "toFixed2 x = of_int (round (x * 100)) / 100"

definition elapsed_seconds :: "backup_env \<Rightarrow> real" where
  "elapsed_seconds env = (real (snd (now_end env)) - real (snd (now_start env))) / 1000"

text \<open>
  The three \<^verbatim>\<open>updateData\<close> objects that end a run. A failed run stores
  \<^verbatim>\<open>error.stack || error.message\<close> as its error details.
\<close>

definition finish_empty :: "backup_env \<Rightarrow> string option \<Rightarrow> backup_row \<Rightarrow> backup_row" where
  "finish_empty env diffBaseDatetime r =
     r\<lparr>end_time := Some (fst (now_end env)),
       duration_seconds := Some (elapsed_seconds env),
       record_count := Some 0,
       status := Success,
       api_request_count := fst (client_stats env),
       retry_count := snd (client_stats env),
       diff_base_datetime := diffBaseDatetime\<rparr>"

definition finish_success ::
  "backup_env \<Rightarrow> string option \<Rightarrow> nat \<Rightarrow> string \<Rightarrow> nat \<Rightarrow> nat \<Rightarrow> backup_row \<Rightarrow> backup_row" where
  "finish_success env diffBaseDatetime n zipName compressedSize originalSize r =
     r\<lparr>end_time := Some (fst (now_end env)),
       duration_seconds := Some (elapsed_seconds env),
       record_count := Some n,
       file_path := Some zipName,
       data_size_mb := Some (toFixed2 (real compressedSize / (1024 * 1024))),
       compression_ratio :=
         (if originalSize = 0 then None
          else Some (toFixed2 ((1 - real compressedSize / real originalSize) * 100))),
       status := Success,
       api_request_count := fst (client_stats env),
       retry_count := snd (client_stats env),
       diff_base_datetime := diffBaseDatetime\<rparr>"

definition error_text :: "js_error \<Rightarrow> string" where
  "error_text e = (case e of Error m \<Rightarrow> m | TypeError m \<Rightarrow> m)"

definition finish_failure :: "backup_env \<Rightarrow> js_error \<Rightarrow> backup_row \<Rightarrow> backup_row" where
  "finish_failure env e r =
     r\<lparr>end_time := Some (fst (now_end env)),
       duration_seconds := Some (elapsed_seconds env),
       status := Failure,
       error_details := Some (if stack_of env e \<noteq> [] then stack_of env e else error_text e),
       api_request_count := fst (client_stats env),
       retry_count := snd (client_stats env)\<rparr>"

text \<open>
  The body of the \<^verbatim>\<open>try\<close> block from the creation of the archive on (the record set
  is not empty). The result is the returned value or the thrown exception, the store,
  and the effects so far.
\<close>

definition backup_nonempty ::
  "backup_env \<Rightarrow> db \<Rightarrow> int \<Rightarrow> string \<Rightarrow> backup_options \<Rightarrow> string \<Rightarrow> string option \<Rightarrow>
   kintone_record list \<Rightarrow> (js_error + backup_result) \<times> db \<times> effect list" where
  "backup_nonempty env d cur appId options appName diffBaseDatetime records =
     (let timestamp = zip_timestamp (now_zip env);
          zipName = zipFileName appId timestamp (backupType options)
      in case fs_createBackupZip env appId records zipName of
           Inl e \<Rightarrow> (Inl e, d, [])
         | Inr originalSize \<Rightarrow>
             (case run_downloadAttachments env appId records timestamp of
                Some e \<Rightarrow> (Inl e, d, [ArchiveWritten zipName])
              | None \<Rightarrow>
                  (case fs_stat_size env zipName of
                     Inl e \<Rightarrow> (Inl e, d, [ArchiveWritten zipName, AttachmentsFetched])
                   | Inr compressedSize \<Rightarrow>
                       (case index_loop d appId cur (fst (now_start env)) records of
                          (Some e, d3) \<Rightarrow>
                            (Inl e, d3, [ArchiveWritten zipName, AttachmentsFetched])
                        | (None, d3) \<Rightarrow>
                            (let d4 = updateBackup d3 cur
                                   (finish_success env diffBaseDatetime (length records)
                                      zipName compressedSize originalSize);
                                 d5 = updateAppLastBackup d4 appId (fst (now_end env))
                                        (backupType options = Full)
                             in (Inr \<lparr>res_appId = appId, res_appName = appName,
                                      res_success = True,
                                      res_recordCount = length records,
                                      res_filePath = Some zipName\<rparr>,
                                 d5,
                                 [ArchiveWritten zipName, AttachmentsFetched,
                                  AuditLogged Success]))))))"

text \<open>The \<^verbatim>\<open>try\<close> block.\<close>

definition backup_try ::
  "backup_env \<Rightarrow> db \<Rightarrow> int \<Rightarrow> string \<Rightarrow> backup_options \<Rightarrow>
   (js_error + backup_result) \<times> db \<times> effect list" where
  "backup_try env d cur appId options =
     (case remote_getApp env appId of
        Inl e \<Rightarrow> (Inl e, d, [])
      | Inr appName \<Rightarrow>
          (let d2 = updateBackup d cur (\<lambda>r. r\<lparr>app_name := Some appName\<rparr>) in
           case determine_records env d2 appId (backupType options) of
             (diffBaseDatetime, Inl e) \<Rightarrow> (Inl e, d2, [])
           | (diffBaseDatetime, Inr records) \<Rightarrow>
               if records = [] then
                 (Inr \<lparr>res_appId = appId, res_appName = appName, res_success = True,
                       res_recordCount = 0, res_filePath = None\<rparr>,
                  updateBackup d2 cur (finish_empty env diffBaseDatetime), [])
               else backup_nonempty env d2 cur appId options appName diffBaseDatetime records))"

text \<open>
  \<^verbatim>\<open>backupApp\<close>: insert the run as running, run the \<^verbatim>\<open>try\<close> block, and in the
  \<^verbatim>\<open>catch\<close> block mark the run as failed and rethrow. The statements on the store
  are taken to succeed, except for a value that cannot be bound; logging does not throw.
\<close>

definition backupApp ::
  "backup_env \<Rightarrow> db \<Rightarrow> string \<Rightarrow> backup_options \<Rightarrow>
   (js_error + backup_result) \<times> db \<times> effect list" where
  "backupApp env d appId options =
     (case insertBackup d appId (backupType options) (triggerType options)
             (fst (now_start env)) (opt_hostname options) (appVersion options) of
        (cur, d1) \<Rightarrow>
          (case backup_try env d1 cur appId options of
             (Inr res, d2, effects) \<Rightarrow> (Inr res, d2, effects)
           | (Inl e, d2, effects) \<Rightarrow>
               (Inl e, updateBackup d2 cur (finish_failure env e), effects)))"

section \<open>Business-key resolution (kintoneClient.js, findRecordIdsByRecordNumbers)\<close>

text \<open>\<^verbatim>\<open>String(v)\<close> on a JSON value.\<close>

fun join_comma :: "string list \<Rightarrow> string" where
  "join_comma [] = []"
| "join_comma [s] = s"
| "join_comma (s # t # ss) = s @ '','' @ join_comma (t # ss)"

fun js_String :: "jvalue \<Rightarrow> string" where
  "js_String JNull = ''null''"
| "js_String (JBool b) = (if b then ''true'' else ''false'')"
| "js_String (JNum n) = string_of_int n"
| "js_String (JStr s) = s"
| "js_String (JArr xs) = join_comma (map (\<lambda>x. if x = JNull then [] else js_String x) xs)"
| "js_String (JObj kvs) = ''[object Object]''"

text \<open>
  The formatting of one key for the query: a key matching \<^verbatim>\<open>/^-?\d+(\.\d+)?$/\<close> is
  sent as it is, any other key between double quotes with each double quote escaped by
  a backslash.
\<close>

definition is_digit :: "char \<Rightarrow> bool" where
  "is_digit c = (48 \<le> (of_char c :: nat) \<and> (of_char c :: nat) \<le> 57)"

definition numeric_looking :: "string \<Rightarrow> bool" where
  "numeric_looking s =
     (let t = (case s of [] \<Rightarrow> [] | c # r \<Rightarrow> if c = CHR ''-'' then r else s);
          whole = takeWhile is_digit t;
          rest = dropWhile is_digit t
      in whole \<noteq> [] \<and>
         (case rest of
            [] \<Rightarrow> True
          | c # fdigits \<Rightarrow> c = CHR ''.'' \<and> fdigits \<noteq> [] \<and> list_all is_digit fdigits))"

definition escape_quotes :: "string \<Rightarrow> string" where
  "escape_quotes s = concat (map (\<lambda>c. if c = CHR 0x22 then [CHR 0x5C, CHR 0x22] else [c]) s)"

definition format_value :: "string \<Rightarrow> string" where
  "format_value s =
     (if numeric_looking s then s else [CHR 0x22] @ escape_quotes s @ [CHR 0x22])"

definition build_query :: "string \<Rightarrow> string list \<Rightarrow> string" where
  "build_query fieldCode chunk =
     fieldCode @ '' in ('' @ join_comma (map format_value chunk) @ '') limit 500''"

text \<open>The batches \<^verbatim>\<open>recordNumbers.slice(i, i + batchSize)\<close> for \<open>i = 0, 50, 100, ...\<close>\<close>

definition batchSize :: nat where
  "batchSize = 50"

function batches :: "'a list \<Rightarrow> 'a list list" where
  "batches xs = (if xs = [] then [] else take batchSize xs # batches (drop batchSize xs))"
  by pat_completeness auto
termination
  by (relation "measure length") (auto simp: batchSize_def)

declare batches.simps [simp del]

text \<open>
  What the resolution receives from outside: the answer of
  \<^verbatim>\<open>getRecordNumberFieldCode(appId)\<close> (\<open>None\<close> is \<^verbatim>\<open>null\<close>, which it also returns when
  it fails) and, for each query, the records returned or the exception thrown.
\<close>

record resolve_env =
  record_number_field :: "string \<Rightarrow> string option"
  remote_getRecords :: "string \<Rightarrow> string \<Rightarrow> js_error + jvalue list"

text \<open>
  The three places an identifier is looked for in a returned record:
  \<^verbatim>\<open>rec?.['$id']?.value || rec?.['__ID__']?.value || rec?.id\<close>.
\<close>

definition nested_value :: "jvalue \<Rightarrow> string \<Rightarrow> jvalue option" where
  "nested_value rec k = (case get_prop rec k of None \<Rightarrow> None | Some f \<Rightarrow> get_prop f ''value'')"

definition id_candidates :: "jvalue \<Rightarrow> jvalue option list" where
  "id_candidates rec = [nested_value rec ''$id'', nested_value rec ''__ID__'', get_prop rec ''id'']"

definition idVal_of :: "jvalue \<Rightarrow> jvalue option" where
  "idVal_of rec =
     js_or (js_or (nested_value rec ''$id'') (nested_value rec ''__ID__'')) (get_prop rec ''id'')"

text \<open>
  The loop over the records of one response, on the object \<^verbatim>\<open>resultMap\<close>. A value of
  the map is \<open>None\<close> for \<^verbatim>\<open>null\<close>. The keys are record ids and record numbers; the
  map is kept as a plain dictionary, in which every key looked up later has been entered
  with \<^verbatim>\<open>null\<close> first.
\<close>

type_synonym id_mapping = "(string \<times> string option) list"

fun collect_ids :: "string \<Rightarrow> id_mapping \<Rightarrow> jvalue list \<Rightarrow> id_mapping" where
  "collect_ids fieldCode resultMap [] = resultMap"
| "collect_ids fieldCode resultMap (rec # recs) =
     (let rnValue = nested_value rec fieldCode in
      if \<not> truthy_opt rnValue then collect_ids fieldCode resultMap recs
      else
        (let idVal = idVal_of rec in
         if truthy_opt idVal
         then collect_ids fieldCode
                (obj_set resultMap (case rnValue of Some v \<Rightarrow> js_String v | None \<Rightarrow> [])
                   (map_option js_String idVal)) recs
         else collect_ids fieldCode resultMap recs))"

text \<open>The loop over the batches; an exception of one batch is logged and the loop goes on.\<close>

fun query_batches ::
  "resolve_env \<Rightarrow> string \<Rightarrow> string \<Rightarrow> id_mapping \<Rightarrow> string list list \<Rightarrow> id_mapping" where
  "query_batches env appId fieldCode resultMap [] = resultMap"
| "query_batches env appId fieldCode resultMap (chunk # chunks) =
     (case remote_getRecords env appId (build_query fieldCode chunk) of
        Inl innerErr \<Rightarrow> query_batches env appId fieldCode resultMap chunks
      | Inr records \<Rightarrow>
          query_batches env appId fieldCode (collect_ids fieldCode resultMap records) chunks)"

fun init_map :: "id_mapping \<Rightarrow> string list \<Rightarrow> id_mapping" where
  "init_map resultMap [] = resultMap"
| "init_map resultMap (rn # rns) = init_map (obj_set resultMap rn None) rns"

definition findRecordIdsByRecordNumbers :: "resolve_env \<Rightarrow> string \<Rightarrow> string list \<Rightarrow> id_mapping" where
  "findRecordIdsByRecordNumbers env appId recordNumbers =
     (let resultMap = init_map [] recordNumbers in
      if recordNumbers = [] then resultMap
      else
        (case record_number_field env appId of
           None \<Rightarrow> resultMap
         | Some fieldCode \<Rightarrow>
             if fieldCode = [] then resultMap
             else query_batches env appId fieldCode resultMap (batches recordNumbers)))"

section \<open>Restore (backupManager.js, restoreBackup)\<close>

text \<open>
  The business key of an archived record, read from the record as archived:
  \<^verbatim>\<open>String(record.$id.value)\<close> when there is one, else the value of the record number
  field under its Japanese code, else \<^verbatim>\<open>null\<close>.
\<close>

definition record_key :: "kintone_record \<Rightarrow> string option" where
  "record_key r =
     (let a = field_value r ''$id''; b = field_value r record_number_ja in
      if truthy_opt a then map_option js_String a
      else if truthy_opt b then map_option js_String b
      else None)"

text \<open>
  \<^verbatim>\<open>Array.from(new Set(recordNumberList.filter((v) => v !== null)))\<close>: the keys that are
  not null, each once, in the order of their first occurrence.
\<close>

fun set_add_all :: "'a list \<Rightarrow> 'a list \<Rightarrow> 'a list" where
  "set_add_all seen [] = seen"
| "set_add_all seen (x # xs) = set_add_all (if x \<in> set seen then seen else seen @ [x]) xs"

definition uniqueRecordNumbers :: "string option list \<Rightarrow> string list" where
  "uniqueRecordNumbers recordNumberList =
     set_add_all [] (map the (filter (\<lambda>v. v \<noteq> None) recordNumberList))"

text \<open>
  The partition loop. \<^verbatim>\<open>mappedId = num != null ? mapping[String(num)] : undefined\<close>,
  and \<^verbatim>\<open>if (mappedId)\<close> holds for a string that is not empty. The mapping is read as
  a plain dictionary: a key is a record id or a record number, never the name of a
  property that every object inherits.
\<close>

definition mappedId_of :: "id_mapping \<Rightarrow> string option \<Rightarrow> string option" where
  "mappedId_of mapping num =
     (case num of
        None \<Rightarrow> None
      | Some k \<Rightarrow> (case map_of mapping k of Some (Some i) \<Rightarrow> Some i | _ \<Rightarrow> None))"

fun partition_loop ::
  "id_mapping \<Rightarrow> (string \<times> kintone_record) list \<Rightarrow> kintone_record list \<Rightarrow>
   kintone_record list \<Rightarrow> string option list \<Rightarrow>
   (string \<times> kintone_record) list \<times> kintone_record list" where
  "partition_loop mapping updates adds (rec # cleanedRecords) (num # recordNumberList) =
     (case mappedId_of mapping num of
        Some mappedId \<Rightarrow>
          if mappedId \<noteq> []
          then partition_loop mapping (updates @ [(mappedId, rec)]) adds
                 cleanedRecords recordNumberList
          else partition_loop mapping updates (adds @ [rec]) cleanedRecords recordNumberList
      | None \<Rightarrow> partition_loop mapping updates (adds @ [rec]) cleanedRecords recordNumberList)"
| "partition_loop mapping updates adds cleanedRecords recordNumberList = (updates, adds)"

text \<open>
  Lines 936 to 970: the two calls and the status. \<open>update_outcome\<close> is the outcome of
  \<^verbatim>\<open>updateAllRecords\<close> (an exception or nothing), \<open>add_outcome\<close> that of
  \<^verbatim>\<open>addAllRecords\<close> (an exception or the array of new ids); a call is made only for a
  partition that is not empty.
\<close>

record restore_counts =
  updatedCount :: nat
  addedCount :: nat
  updateFailed :: bool
  addFailed :: bool

definition apply_partitions ::
  "js_error option \<Rightarrow> js_error + string list \<Rightarrow> (string \<times> kintone_record) list \<Rightarrow>
   kintone_record list \<Rightarrow> restore_counts" where
  "apply_partitions update_outcome add_outcome updates adds =
     (let c0 = \<lparr>updatedCount = 0, addedCount = 0, updateFailed = False, addFailed = False\<rparr>;
          c1 = (if updates \<noteq> [] then
                  (case update_outcome of
                     None \<Rightarrow> c0\<lparr>updatedCount := length updates\<rparr>
                   | Some err \<Rightarrow> c0\<lparr>updateFailed := True\<rparr>)
                else c0)
      in if adds \<noteq> [] then
           (case add_outcome of
              Inr res \<Rightarrow> c1\<lparr>addedCount := length res\<rparr>
            | Inl err \<Rightarrow> c1\<lparr>addFailed := True\<rparr>)
         else c1)"

definition restore_status :: "restore_counts \<Rightarrow> run_status" where
  "restore_status c =
     (if (updateFailed c \<or> addFailed c) \<and> (0 < addedCount c \<or> 0 < updatedCount c)
      then PartialSuccess
      else if updateFailed c \<and> addFailed c then Failure
      else Success)"

text \<open>
  \<^verbatim>\<open>restoreBackup\<close>. \<open>extract_outcome\<close> is the outcome of \<^verbatim>\<open>extractBackupZip\<close> on the
  run's archive. The result is the exception thrown, or the value returned together with
  the status written to the audit entry and the two partitions sent.
\<close>

record restore_env =
  extract_outcome :: "js_error + kintone_record list"
  resolver :: resolve_env
  update_outcome :: "js_error option"
  add_outcome :: "js_error + string list"

record restore_result =
  rr_success :: bool
  rr_status :: run_status
  rr_recordCount :: nat
  rr_addedCount :: nat
  rr_updatedCount :: nat
  rr_updates :: "(string \<times> kintone_record) list"
  rr_adds :: "kintone_record list"

text \<open>
  \<^verbatim>\<open>records.filter((record) => selectedRecordIds.includes(record.$id.value))\<close>; reading
  \<^verbatim>\<open>record.$id.value\<close> throws for a record without \<^verbatim>\<open>$id\<close>.
\<close>

fun select_records :: "string list \<Rightarrow> kintone_record list \<Rightarrow> js_error + kintone_record list" where
  "select_records selectedRecordIds [] = Inr []"
| "select_records selectedRecordIds (r # rs) =
     (case id_value r of
        Inl e \<Rightarrow> Inl e
      | Inr v \<Rightarrow>
          (case select_records selectedRecordIds rs of
             Inl e \<Rightarrow> Inl e
           | Inr kept \<Rightarrow>
               Inr (if (case v of Some (JStr s) \<Rightarrow> s \<in> set selectedRecordIds | _ \<Rightarrow> False)
                    then r # kept else kept)))"

definition restore_mapping :: "resolve_env \<Rightarrow> string \<Rightarrow> string option list \<Rightarrow> id_mapping" where
  "restore_mapping env appId recordNumberList =
     (let unique = uniqueRecordNumbers recordNumberList in
      if unique \<noteq> [] then findRecordIdsByRecordNumbers env appId unique else [])"

definition restoreBackup ::
  "restore_env \<Rightarrow> db \<Rightarrow> int \<Rightarrow> string list option \<Rightarrow> js_error + restore_result" where
  "restoreBackup env d backupId selectedRecordIds =
     (case getBackupById d backupId of
        None \<Rightarrow> Inl (Error ''backup not found'')
      | Some backup \<Rightarrow>
          (case extract_outcome env of
             Inl e \<Rightarrow> Inl e
           | Inr records \<Rightarrow>
               (case (case selectedRecordIds of
                        None \<Rightarrow> Inr records
                      | Some ids \<Rightarrow> if ids = [] then Inr records else select_records ids records) of
                  Inl e \<Rightarrow> Inl e
                | Inr recordsToRestore \<Rightarrow>
                    if recordsToRestore = [] then Inl (Error ''no records to restore'')
                    else
                      (let cleanedRecords = map cleanRecordForRestore recordsToRestore;
                           recordNumberList = map record_key recordsToRestore;
                           mapping = restore_mapping (resolver env) (app_id backup)
                                       recordNumberList;
                           (updates, adds) = partition_loop mapping [] [] cleanedRecords
                                               recordNumberList;
                           c = apply_partitions (update_outcome env) (add_outcome env)
                                 updates adds;
                           status = restore_status c
                       in Inr \<lparr>rr_success = (status = Success \<or> status = PartialSuccess),
                                rr_status = status,
                                rr_recordCount = length recordsToRestore,
                                rr_addedCount = addedCount c,
                                rr_updatedCount = updatedCount c,
                                rr_updates = updates, rr_adds = adds\<rparr>))))"

text \<open>
  The service sends identifiers as strings: \<open>string_ids env appId\<close> says that in every
  record of every response each of the three places an identifier is read from holds a
  string or \<^verbatim>\<open>null\<close>, or is absent.
\<close>

definition string_valued :: "jvalue option \<Rightarrow> bool" where
  "string_valued v = (case v of None \<Rightarrow> True | Some JNull \<Rightarrow> True | Some (JStr s) \<Rightarrow> True | _ \<Rightarrow> False)"

definition string_ids :: "resolve_env \<Rightarrow> string \<Rightarrow> bool" where
  "string_ids env appId =
     (\<forall>query records. remote_getRecords env appId query = Inr records \<longrightarrow>
        (\<forall>rec \<in> set records. \<forall>c \<in> set (id_candidates rec). string_valued c))"

section \<open>The archive codec (backupManager.js, createBackupZip and extractBackupZip)\<close>

text \<open>
  A JavaScript string is held as the bytes of its UTF-8 form, so encoding a string into
  a buffer is the identity and the work is in decoding a buffer. The container is the
  list of its entries, each a name and the bytes stored under it.
\<close>

subsection \<open>JSON.stringify with indentation 2\<close>

definition hex_digit :: "nat \<Rightarrow> char" where
  "hex_digit n = (if n < 10 then char_of (48 + n) else char_of (87 + n))"

definition escape_char :: "char \<Rightarrow> string" where
  "escape_char c =
     (let n = (of_char c :: nat) in
      if c = CHR 0x22 then [CHR 0x5C, CHR 0x22]
      else if c = CHR 0x5C then [CHR 0x5C, CHR 0x5C]
      else if n = 8 then [CHR 0x5C, CHR ''b'']
      else if n = 9 then [CHR 0x5C, CHR ''t'']
      else if n = 10 then [CHR 0x5C, CHR ''n'']
      else if n = 12 then [CHR 0x5C, CHR ''f'']
      else if n = 13 then [CHR 0x5C, CHR ''r'']
      else if n < 32 then [CHR 0x5C, CHR ''u'', CHR ''0'', CHR ''0'',
                           hex_digit (n div 16), hex_digit (n mod 16)]
      else [c])"

definition quote :: "string \<Rightarrow> string" where
  "quote s = [CHR 0x22] @ concat (map escape_char s) @ [CHR 0x22]"

definition indent :: "nat \<Rightarrow> string" where
  "indent level = replicate (2 * level) CHR '' ''"

fun join_with :: "string \<Rightarrow> string list \<Rightarrow> string" where
  "join_with sep [] = []"
| "join_with sep [s] = s"
| "join_with sep (s # t # ss) = s @ sep @ join_with sep (t # ss)"

fun stringify_value :: "nat \<Rightarrow> jvalue \<Rightarrow> string" where
  "stringify_value level JNull = ''null''"
| "stringify_value level (JBool b) = (if b then ''true'' else ''false'')"
| "stringify_value level (JNum n) = string_of_int n"
| "stringify_value level (JStr s) = quote s"
| "stringify_value level (JArr xs) =
     (if xs = [] then ''[]''
      else ''['' @ [CHR 0x0A] @ indent (Suc level) @
           join_with ('','' @ [CHR 0x0A] @ indent (Suc level))
             (map (stringify_value (Suc level)) xs) @
           [CHR 0x0A] @ indent level @ '']'')"
| "stringify_value level (JObj kvs) =
     (if kvs = [] then ''{}''
      else ''{'' @ [CHR 0x0A] @ indent (Suc level) @
           join_with ('','' @ [CHR 0x0A] @ indent (Suc level))
             (map (\<lambda>kv. quote (fst kv) @ '': '' @ stringify_value (Suc level) (snd kv)) kvs) @
           [CHR 0x0A] @ indent level @ ''}'')"

definition JSON_stringify :: "jvalue \<Rightarrow> string" where
  "JSON_stringify v = stringify_value 0 v"

subsection \<open>JSON.parse\<close>

text \<open>
  A recursive-descent parser with fuel; the length of the text is enough fuel. \<open>None\<close>
  is a SyntaxError. Fractions, exponents and escaped surrogates are outside the model
  (numbers are integers and strings are UTF-8) and are refused.
\<close>

definition is_ws :: "char \<Rightarrow> bool" where
  "is_ws c = (c = CHR '' '' \<or> c = CHR 0x0A \<or> c = CHR 0x0D \<or> c = CHR 0x09)"

definition skip_ws :: "string \<Rightarrow> string" where
  "skip_ws s = dropWhile is_ws s"

text \<open>The UTF-8 bytes of a code point of the basic plane that is not a surrogate.\<close>

definition utf8_of_bmp :: "nat \<Rightarrow> string option" where
  "utf8_of_bmp cp =
     (if cp < 0x80 then Some [char_of cp]
      else if cp < 0x800 then Some [char_of (0xC0 + cp div 64), char_of (0x80 + cp mod 64)]
      else if 0xD800 \<le> cp \<and> cp \<le> 0xDFFF then None
      else Some [char_of (0xE0 + cp div 4096), char_of (0x80 + (cp div 64) mod 64),
                 char_of (0x80 + cp mod 64)])"

definition unescape_u :: "string \<Rightarrow> string option" where
  "unescape_u hs =
     (case map hex_val hs of
        [Some a, Some b, Some c, Some d] \<Rightarrow> utf8_of_bmp (((a * 16 + b) * 16 + c) * 16 + d)
      | _ \<Rightarrow> None)"

text \<open>The characters of a string literal after its opening quote, and the rest of the text.\<close>

fun parse_chars :: "string \<Rightarrow> string \<Rightarrow> (string \<times> string) option" where
  "parse_chars acc [] = None"
| "parse_chars acc [c] = (if c = CHR 0x22 then Some (acc, []) else None)"
| "parse_chars acc (c # e # cs) =
     (if c = CHR 0x22 then Some (acc, e # cs)
      else if c = CHR 0x5C then
        (if e = CHR 0x22 \<or> e = CHR 0x5C \<or> e = CHR ''/'' then parse_chars (acc @ [e]) cs
         else if e = CHR ''b'' then parse_chars (acc @ [CHR 0x08]) cs
         else if e = CHR ''t'' then parse_chars (acc @ [CHR 0x09]) cs
         else if e = CHR ''n'' then parse_chars (acc @ [CHR 0x0A]) cs
         else if e = CHR ''f'' then parse_chars (acc @ [CHR 0x0C]) cs
         else if e = CHR ''r'' then parse_chars (acc @ [CHR 0x0D]) cs
         else if e = CHR ''u'' then
           (case unescape_u (take 4 cs) of
              None \<Rightarrow> None
            | Some bytes \<Rightarrow> parse_chars (acc @ bytes) (drop 4 cs))
         else None)
      else if (of_char c :: nat) < 32 then None
      else parse_chars (acc @ [c]) (e # cs))"

definition parse_number :: "string \<Rightarrow> (jvalue \<times> string) option" where
  "parse_number s =
     (let neg = (s \<noteq> [] \<and> hd s = CHR ''-'');
          t = (if neg then tl s else s);
          ds = takeWhile is_digit t;
          rest = dropWhile is_digit t
      in if ds = [] \<or> (length ds > 1 \<and> hd ds = CHR ''0'') then None
         else if rest \<noteq> [] \<and> (hd rest = CHR ''.'' \<or> hd rest = CHR ''e'' \<or> hd rest = CHR ''E'')
         then None
         else Some (JNum (if neg then - int (parse_digits 0 ds) else int (parse_digits 0 ds)),
                    rest))"

fun parse_value :: "nat \<Rightarrow> string \<Rightarrow> (jvalue \<times> string) option"
  and parse_elements :: "nat \<Rightarrow> jvalue list \<Rightarrow> string \<Rightarrow> (jvalue \<times> string) option"
  and parse_members :: "nat \<Rightarrow> (string \<times> jvalue) list \<Rightarrow> string \<Rightarrow> (jvalue \<times> string) option"
where
  "parse_value 0 s = None"
| "parse_value (Suc n) s =
     (let t = skip_ws s in
      if take 4 t = ''null'' then Some (JNull, drop 4 t)
      else if take 4 t = ''true'' then Some (JBool True, drop 4 t)
      else if take 5 t = ''false'' then Some (JBool False, drop 5 t)
      else if take 1 t = [CHR 0x22] then
        (case parse_chars [] (drop 1 t) of
           None \<Rightarrow> None
         | Some (str, rest) \<Rightarrow> Some (JStr str, rest))
      else if take 1 t = ''['' then
        (if take 1 (skip_ws (drop 1 t)) = '']''
         then Some (JArr [], drop 1 (skip_ws (drop 1 t)))
         else parse_elements n [] (drop 1 t))
      else if take 1 t = ''{'' then
        (if take 1 (skip_ws (drop 1 t)) = ''}''
         then Some (JObj [], drop 1 (skip_ws (drop 1 t)))
         else parse_members n [] (drop 1 t))
      else parse_number t)"
| "parse_elements 0 acc s = None"
| "parse_elements (Suc n) acc s =
     (case parse_value n s of
        None \<Rightarrow> None
      | Some (v, rest) \<Rightarrow>
          (let t = skip_ws rest in
           if take 1 t = '','' then parse_elements n (acc @ [v]) (drop 1 t)
           else if take 1 t = '']'' then Some (JArr (acc @ [v]), drop 1 t)
           else None))"
| "parse_members 0 acc s = None"
| "parse_members (Suc n) acc s =
     (let t = skip_ws s in
      if take 1 t = [CHR 0x22] then
        (case parse_chars [] (drop 1 t) of
           None \<Rightarrow> None
         | Some (key, rest) \<Rightarrow>
             (let u = skip_ws rest in
              if take 1 u = '':'' then
                (case parse_value n (drop 1 u) of
                   None \<Rightarrow> None
                 | Some (v, rest') \<Rightarrow>
                     (let w = skip_ws rest' in
                      if take 1 w = '','' then parse_members n (obj_set acc key v) (drop 1 w)
                      else if take 1 w = ''}'' then Some (JObj (obj_set acc key v), drop 1 w)
                      else None))
              else None))
      else None)"

definition JSON_parse :: "string \<Rightarrow> jvalue option" where
  "JSON_parse s =
     (case parse_value (Suc (length s)) s of
        None \<Rightarrow> None
      | Some (v, rest) \<Rightarrow> if skip_ws rest = [] then Some v else None)"

subsection \<open>Buffer.toString\<close>

text \<open>
  \<^verbatim>\<open>chunk.toString()\<close> decodes the bytes of one buffer as UTF-8: a well-formed sequence
  is kept, and every ill-formed or truncated sequence becomes the replacement character
  U+FFFD (bytes EF BF BD). The decoder is the UTF-8 decoder of the Encoding Standard:
  \<open>needed\<close> counts the continuation bytes still expected, \<open>pending\<close> holds the bytes of
  the sequence so far, and \<open>lower\<close> and \<open>upper\<close> bound the next byte. A byte that
  ends a sequence early is decoded again from the start state.
\<close>

definition replacement :: string where
  "replacement = [CHR 0xEF, CHR 0xBF, CHR 0xBD]"

function utf8_decode :: "string \<Rightarrow> nat \<Rightarrow> nat \<Rightarrow> nat \<Rightarrow> string \<Rightarrow> string" where
  "utf8_decode pending needed lower upper [] = (if needed = 0 then [] else replacement)"
| "utf8_decode pending needed lower upper (b # bs) =
     (if needed = 0 then
        (if (of_char b :: nat) \<le> 0x7F then b # utf8_decode [] 0 0x80 0xBF bs
         else if 0xC2 \<le> (of_char b :: nat) \<and> (of_char b :: nat) \<le> 0xDF
         then utf8_decode [b] 1 0x80 0xBF bs
         else if 0xE0 \<le> (of_char b :: nat) \<and> (of_char b :: nat) \<le> 0xEF
         then utf8_decode [b] 2 (if (of_char b :: nat) = 0xE0 then 0xA0 else 0x80)
                (if (of_char b :: nat) = 0xED then 0x9F else 0xBF) bs
         else if 0xF0 \<le> (of_char b :: nat) \<and> (of_char b :: nat) \<le> 0xF4
         then utf8_decode [b] 3 (if (of_char b :: nat) = 0xF0 then 0x90 else 0x80)
                (if (of_char b :: nat) = 0xF4 then 0x8F else 0xBF) bs
         else replacement @ utf8_decode [] 0 0x80 0xBF bs)
      else if (of_char b :: nat) < lower \<or> upper < (of_char b :: nat)
      then replacement @ utf8_decode [] 0 0x80 0xBF (b # bs)
      else if needed = 1 then pending @ [b] @ utf8_decode [] 0 0x80 0xBF bs
      else utf8_decode (pending @ [b]) (needed - 1) 0x80 0xBF bs)"
  by pat_completeness auto
termination
  by (relation "measure (\<lambda>(pending, needed, lower, upper, bs).
        2 * length bs + (if needed = 0 then 0 else 1))") auto

definition toString :: "string \<Rightarrow> string" where
  "toString chunk = utf8_decode [] 0 0x80 0xBF chunk"

subsection \<open>Writing and reading the container\<close>

type_synonym container = "(string \<times> string) list"

text \<open>
  \<^verbatim>\<open>createBackupZip\<close>: the records as JSON under the name \<^verbatim>\<open>records.json\<close>, then the
  manifest under \<^verbatim>\<open>backup_metadata.json\<close>. \<open>form_fields\<close> is the outcome of
  \<^verbatim>\<open>getFormFields\<close> (a failure leaves \<^verbatim>\<open>fieldProperties\<close> null), \<open>backup_date\<close> the
  clock reading. The result is \<^verbatim>\<open>originalSize\<close>, the byte length of the records'
  JSON, and the container written.
\<close>

record zip_env =
  form_fields :: "js_error + jvalue"
  backup_date :: string

definition createBackupZip :: "zip_env \<Rightarrow> string \<Rightarrow> kintone_record list \<Rightarrow> nat \<times> container" where
  "createBackupZip env appId records =
     (let recordsJson = JSON_stringify (JArr (map JObj records));
          originalSize = length recordsJson;
          fieldProperties = (case form_fields env of Inl e \<Rightarrow> JNull | Inr p \<Rightarrow> p);
          metadata = JObj [(''schemaVersion'', JStr ''1.0.0''), (''appId'', JStr appId),
                           (''recordCount'', JNum (int (length records))),
                           (''backupDate'', JStr (backup_date env)),
                           (''version'', JStr ''1.0''),
                           (''fieldProperties'', fieldProperties)]
      in (originalSize,
          [(''records.json'', recordsJson),
           (''backup_metadata.json'', JSON_stringify metadata)]))"

text \<open>
  Reading streams each entry as a sequence of \<^verbatim>\<open>data\<close> events, each carrying one
  buffer. Where the bytes of an entry are cut into buffers is decided by the
  decompressor, not by the caller: zlib's inflate stream emits its output in blocks of
  its chunk size (16384 bytes by default). \<open>blocks n\<close> cuts after every \<open>n\<close> bytes.
\<close>

type_synonym delivered = "(string \<times> string list) list"

function blocks :: "nat \<Rightarrow> string \<Rightarrow> string list" where
  "blocks n bs = (if bs = [] \<or> n = 0 then [] else take n bs # blocks n (drop n bs))"
  by pat_completeness auto
termination
  by (relation "measure (\<lambda>(n, bs). length bs)") auto

declare blocks.simps [simp del]

definition read_container :: "(string \<Rightarrow> string list) \<Rightarrow> container \<Rightarrow> delivered" where
  "read_container chunking c = map (\<lambda>(name, bytes). (name, chunking bytes)) c"

text \<open>
  \<^verbatim>\<open>records.push(...parsed)\<close>: the elements of an array, the characters of a string;
  any other value is not iterable and the spread throws.
\<close>

definition is_continuation :: "char \<Rightarrow> bool" where
  "is_continuation c = (0x80 \<le> (of_char c :: nat) \<and> (of_char c :: nat) \<le> 0xBF)"

fun chars_loop :: "string \<Rightarrow> string \<Rightarrow> string list" where
  "chars_loop cur [] = (if cur = [] then [] else [cur])"
| "chars_loop cur (b # bs) =
     (if is_continuation b \<and> cur \<noteq> [] then chars_loop (cur @ [b]) bs
      else (if cur = [] then [] else [cur]) @ chars_loop [b] bs)"

definition utf8_chars :: "string \<Rightarrow> string list" where
  "utf8_chars s = chars_loop [] s"

definition spread :: "jvalue \<Rightarrow> jvalue list option" where
  "spread parsed =
     (case parsed of
        JArr xs \<Rightarrow> Some xs
      | JStr s \<Rightarrow> Some (map JStr (utf8_chars s))
      | _ \<Rightarrow> None)"

text \<open>
  \<^verbatim>\<open>extractBackupZip\<close>: for the entry named \<^verbatim>\<open>records.json\<close> each buffer is
  decoded on its own and appended, \<^verbatim>\<open>recordsJson += chunk.toString()\<close>, and at the end
  of the entry the text is parsed and its elements pushed; any other entry is drained.
\<close>

fun extract_loop :: "string \<Rightarrow> jvalue list \<Rightarrow> delivered \<Rightarrow> js_error + jvalue list" where
  "extract_loop recordsJson records [] = Inr records"
| "extract_loop recordsJson records ((fileName, chunks) # entries) =
     (if fileName = ''records.json'' then
        (let text = foldl (\<lambda>acc chunk. acc @ toString chunk) recordsJson chunks in
         case JSON_parse text of
           None \<Rightarrow> Inl (Error ''Failed to parse records.json'')
         | Some parsed \<Rightarrow>
             (case spread parsed of
                None \<Rightarrow> Inl (Error ''Failed to parse records.json'')
              | Some elements \<Rightarrow> extract_loop text (records @ elements) entries))
      else extract_loop recordsJson records entries)"

definition extractBackupZip :: "delivered \<Rightarrow> js_error + jvalue list" where
  "extractBackupZip entries = extract_loop [] [] entries"

text \<open>
  A character that \<^verbatim>\<open>JSON.stringify\<close> writes as it is and \<^verbatim>\<open>JSON.parse\<close> reads as it
  is inside a string literal.
\<close>

definition plain_char :: "char \<Rightarrow> bool" where
  "plain_char c = (c \<noteq> CHR 0x22 \<and> c \<noteq> CHR 0x5C \<and> 32 \<le> (of_char c :: nat))"

section \<open>Sample inputs\<close>

text \<open>Concrete inputs at which the theorems below are evaluated.\<close>

definition rate_limited_60 :: request_error where
  "rate_limited_60 =
     \<lparr>response = Some \<lparr>status_code = 429, retry_after = Some ''60''\<rparr>,
      network_or_idempotent = False\<rparr>"


text \<open>
  A record with a system field, a top-level computed field, and a table whose one row
  holds a computed field.
\<close>

definition calc_field :: jvalue where
  "calc_field = JObj [(''type'', JStr ''CALC''), (''value'', JStr ''30'')]"

definition order_record :: kintone_record where
  "order_record =
     [(''$id'', JObj [(''type'', JStr ''__ID__''), (''value'', JStr ''1'')]),
      (''Customer'', JObj [(''type'', JStr ''SINGLE_LINE_TEXT''), (''value'', JStr ''ACME'')]),
      (''GrandTotal'', calc_field),
      (''Items'', JObj [(''type'', JStr ''SUBTABLE''),
         (''value'', JArr [JObj [(''id'', JStr ''7''),
            (''value'', JObj [(''Amount'', calc_field)])]])])]"

definition order_record_kept :: kintone_record where
  "order_record_kept =
     [(''Customer'', JObj [(''type'', JStr ''SINGLE_LINE_TEXT''), (''value'', JStr ''ACME'')]),
      (''Items'', JObj [(''type'', JStr ''SUBTABLE''),
         (''value'', JArr [JObj [(''id'', JStr ''7''),
            (''value'', JObj [(''Amount'', calc_field)])]])])]"

text \<open>
  A store with two finished runs of app 10 and three record markers: one written by
  run 1, one by run 2, one with no run.
\<close>

definition sample_run :: "int \<Rightarrow> string \<Rightarrow> backup_row" where
  "sample_run n path =
     \<lparr>backup_id = n, app_id = ''10'', app_name = Some ''Orders'', backup_type = Full,
      trigger_type = ''manual'', start_time = ''2024-01-01T00:00:00.000Z'',
      end_time = Some ''2024-01-01T00:00:05.000Z'', duration_seconds = Some 5,
      record_count = Some 2, file_path = Some path, data_size_mb = Some 0,
      compression_ratio = Some 50, status = Success, error_details = None,
      api_request_count = 3, retry_count = 0, diff_base_datetime = None,
      hostname = ''pc'', app_version = ''1.0.0''\<rparr>"

definition sample_marker :: "string \<Rightarrow> int option \<Rightarrow> index_row" where
  "sample_marker rid run =
     \<lparr>ri_app_id = ''10'', ri_record_id = rid, ri_updated_time = ''5'',
      ri_last_backup_id = run\<rparr>"

definition sample_app :: app_row where
  "sample_app =
     \<lparr>a_app_id = ''10'', a_app_name = Some ''Orders'', a_is_active = True,
      a_last_backup_datetime = Some ''2024-01-02T00:00:05.000Z'',
      a_last_full_backup_datetime = Some ''2024-01-02T00:00:05.000Z''\<rparr>"

definition sample_db :: db where
  "sample_db =
     \<lparr>backups = [sample_run 1 ''a.zip'', sample_run 2 ''b.zip''], backups_seq = 2,
      apps = [sample_app],
      record_index = [sample_marker ''1'' (Some 1), sample_marker ''2'' (Some 2),
                      sample_marker ''3'' None]\<rparr>"

definition io_error :: js_error where
  "io_error = Error ''disk I/O error''"

definition sample_db_after :: db where
  "sample_db_after =
     sample_db\<lparr>backups := [sample_run 2 ''b.zip''],
               record_index := [sample_marker ''2'' (Some 2), sample_marker ''3'' None]\<rparr>"

text \<open>
  An environment in which every call succeeds: the app is named Orders, a full fetch
  returns the sample record, a differential fetch returns nothing. \<open>new_app_db\<close> tracks
  app 10 with no backup made so far.
\<close>

definition sample_env :: backup_env where
  "sample_env =
     \<lparr>now_start = (''2024-02-01T10:00:00.000Z'', 1000),
      now_zip = ''2024-02-01T10:00:02.500Z'',
      now_end = (''2024-02-01T10:00:03.000Z'', 4000),
      remote_getApp = (\<lambda>appId. Inr ''Orders''),
      remote_getAllRecords = (\<lambda>appId. Inr [order_record]),
      remote_getDifferentialRecords = (\<lambda>appId since. Inr []),
      fs_createBackupZip = (\<lambda>appId records name. Inr 400),
      run_downloadAttachments = (\<lambda>appId records timestamp. None),
      fs_stat_size = (\<lambda>name. Inr 100),
      client_stats = (2, 0),
      stack_of = (\<lambda>e. [])\<rparr>"

definition new_app_db :: db where
  "new_app_db =
     \<lparr>backups = [], backups_seq = 0,
      apps = [\<lparr>a_app_id = ''10'', a_app_name = Some ''Orders'', a_is_active = True,
               a_last_backup_datetime = None, a_last_full_backup_datetime = None\<rparr>],
      record_index = []\<rparr>"

definition sample_options :: "backup_kind \<Rightarrow> backup_options" where
  "sample_options k =
     \<lparr>backupType = k, triggerType = ''manual'', opt_hostname = ''pc'', appVersion = ''1.0.0''\<rparr>"

text \<open>
  A restore of two archived records with keys 1 and 2. The service knows the record
  number field as \<open>RecNo\<close> and answers the query for both keys with one record: key 1 is
  live under identifier 101, key 2 is not found.
\<close>

definition archived :: "string \<Rightarrow> string \<Rightarrow> kintone_record" where
  "archived rid customer =
     [(''$id'', JObj [(''type'', JStr ''__ID__''), (''value'', JStr rid)]),
      (''Customer'', JObj [(''type'', JStr ''SINGLE_LINE_TEXT''), (''value'', JStr customer)])]"

definition cleaned :: "string \<Rightarrow> kintone_record" where
  "cleaned customer =
     [(''Customer'', JObj [(''type'', JStr ''SINGLE_LINE_TEXT''), (''value'', JStr customer)])]"

definition sample_resolver :: resolve_env where
  "sample_resolver =
     \<lparr>record_number_field = (\<lambda>appId. Some ''RecNo''),
      remote_getRecords = (\<lambda>appId query.
        if query = ''RecNo in (1,2) limit 500''
        then Inr [JObj [(''RecNo'', JObj [(''value'', JStr ''1'')]),
                        (''$id'', JObj [(''value'', JStr ''101'')])]]
        else if query = ''RecNo in (1) limit 500''
        then Inr [JObj [(''RecNo'', JObj [(''value'', JStr ''1'')]),
                        (''$id'', JObj [(''value'', JStr ''101'')])]]
        else Inr [])\<rparr>"

definition sample_mapping :: id_mapping where
  "sample_mapping = [(''1'', Some ''101''), (''2'', None)]"

text \<open>
  A restore of run 1 whose archive holds the one record with key 1: it is resolved, so
  the update partition is the only one attempted, and the update call fails.
\<close>

definition failing_update_env :: restore_env where
  "failing_update_env =
     \<lparr>extract_outcome = Inr [archived ''1'' ''ACME''],
      resolver = sample_resolver,
      update_outcome = Some (Error ''[520] update failed''),
      add_outcome = Inr []\<rparr>"

text \<open>
  A record whose value ends in a two-byte character, e with acute accent (C3 A9). Its
  JSON is 88 bytes long and the two bytes of that character are bytes 73 and 74
  (counting from 0), so blocks of 37 bytes cut the text once between ASCII characters
  and once inside the character.
\<close>

definition name_record :: "string \<Rightarrow> kintone_record" where
  "name_record v =
     [(''Name'', JObj [(''type'', JStr ''SINGLE_LINE_TEXT''), (''value'', JStr v)])]"

definition cafe_record :: kintone_record where
  "cafe_record = name_record (''Caf'' @ [CHR 0xC3, CHR 0xA9])"

definition cafe_record_garbled :: kintone_record where
  "cafe_record_garbled = name_record (''Caf'' @ replacement @ replacement)"

text \<open>
  The same record with 16313 letters before the two-byte character: the JSON of the
  record list is 16398 bytes long and the two bytes of the character are bytes 16383
  and 16384, on either side of the first boundary of 16384-byte blocks.
\<close>

definition long_value :: string where
  "long_value = replicate 16313 CHR ''A''"

definition long_record :: kintone_record where
  "long_record = name_record (long_value @ [CHR 0xC3, CHR 0xA9])"

definition long_record_garbled :: kintone_record where
  "long_record_garbled = name_record (long_value @ replacement @ replacement)"

text \<open>The JSON text of a one-record list before and after the value of \<open>Name\<close>.\<close>

definition json_pre :: string where
  "json_pre =
     ''['' @ [CHR 0x0A] @ ''  {'' @ [CHR 0x0A] @
     ''    '' @ [CHR 0x22] @ ''Name'' @ [CHR 0x22] @ '': {'' @ [CHR 0x0A] @
     ''      '' @ [CHR 0x22] @ ''type'' @ [CHR 0x22] @ '': '' @
       [CHR 0x22] @ ''SINGLE_LINE_TEXT'' @ [CHR 0x22] @ '','' @ [CHR 0x0A] @
     ''      '' @ [CHR 0x22] @ ''value'' @ [CHR 0x22] @ '': '' @ [CHR 0x22]"

definition json_post :: string where
  "json_post =
     [CHR 0x22, CHR 0x0A] @ ''    }'' @ [CHR 0x0A] @ ''  }'' @ [CHR 0x0A] @ '']''"

definition sample_zip_env :: zip_env where
  "sample_zip_env = \<lparr>form_fields = Inr (JObj []), backup_date = ''2024-02-01T10:00:02.500Z''\<rparr>"
section \<open>Properties of the retry policy\<close>

lemma base_delay_nonneg: "0 \<le> base_delay n"
  by (simp add: base_delay_def initialDelay_def maxDelay_def backoffMultiplier_def
      power_int_def)

lemma powi_two_mono:
  fixes m n :: int
  assumes "m \<le> n"
  shows "(2::real) powi m \<le> 2 powi n"
  using assms by (simp add: power_int_increasing)

lemma base_delay_mono: "m \<le> n \<Longrightarrow> base_delay m \<le> base_delay n"
proof -
  assume le: "m \<le> n"
  have "(2::real) powi (m - 1) \<le> 2 powi (n - 1)"
    using le by (intro powi_two_mono) simp
  then have "initialDelay * (backoffMultiplier powi (m - 1))
      \<le> initialDelay * (backoffMultiplier powi (n - 1))"
    by (simp add: initialDelay_def backoffMultiplier_def)
  then show ?thesis
    unfolding base_delay_def by (rule min.mono) simp
qed

lemma jitter_factor_bounds:
  fixes rnd :: real
  assumes "0 \<le> rnd" "rnd < 1"
  shows "0.8 \<le> 1 + 0.2 * (rnd * 2 - 1)" and "1 + 0.2 * (rnd * 2 - 1) \<le> 1.2"
  using assms by argo+

lemma retryDelay_factor: "retryDelay rnd n = base_delay n * (1 + 0.2 * (rnd * 2 - 1))"
  by (simp add: retryDelay_def Let_def algebra_simps)

lemma retryDelay_bounds:
  assumes "0 \<le> rnd" "rnd < 1"
  shows "0.8 * base_delay n \<le> retryDelay rnd n \<and> retryDelay rnd n \<le> 1.2 * base_delay n"
proof -
  have b: "0 \<le> base_delay n" by (rule base_delay_nonneg)
  note f = jitter_factor_bounds [OF assms]
  have "base_delay n * 0.8 \<le> base_delay n * (1 + 0.2 * (rnd * 2 - 1))"
    using f(1) b by (rule mult_left_mono)
  moreover have "base_delay n * (1 + 0.2 * (rnd * 2 - 1)) \<le> base_delay n * 1.2"
    using f(2) b by (rule mult_left_mono)
  ultimately show ?thesis
    by (simp add: retryDelay_factor mult.commute)
qed

lemma base_delay_le_cap: "base_delay n \<le> maxDelay"
  by (simp add: base_delay_def)

lemma base_delay_at_cap: "6 \<le> n \<Longrightarrow> base_delay n = maxDelay"
proof -
  assume "6 \<le> n"
  then have "(2::real) powi 5 \<le> 2 powi (n - 1)"
    by (intro powi_two_mono) simp
  then have "maxDelay \<le> initialDelay * (backoffMultiplier powi (n - 1))"
    by (simp add: initialDelay_def backoffMultiplier_def maxDelay_def)
  then show ?thesis
    by (simp add: base_delay_def)
qed

text \<open>
  Claim C10. For attempt numbers \<open>m \<le> n\<close> (in particular the attempts 1 to 5 made
  before the retries are exhausted) the computed base delay does not decrease and
  stays at or below the cap of 32000 ms; and for every jitter draw in \<open>[0, 1)\<close> the
  delay returned by \<^verbatim>\<open>retryDelay\<close> is between 80% and 120% of that base delay.
\<close>

theorem retry_backoff_monotone_within_jitter:
  assumes "m \<le> n" and "0 \<le> rnd" and "rnd < 1"
  shows "base_delay m \<le> base_delay n \<and> base_delay n \<le> maxDelay \<and>
         0.8 * base_delay n \<le> retryDelay rnd n \<and> retryDelay rnd n \<le> 1.2 * base_delay n"
  using base_delay_mono [OF assms(1)] base_delay_le_cap [of n]
    retryDelay_bounds [OF assms(2,3), of n]
  by simp

theorem retry_backoff_monotone_within_jitter_witness:
  "base_delay 1 = 1000 \<and> base_delay 5 = 16000 \<and> retryDelay (1/4) 5 = 14400 \<and>
   base_delay 1 \<le> base_delay 5 \<and> base_delay 5 \<le> maxDelay \<and>
   0.8 * base_delay 5 \<le> retryDelay (1/4) 5 \<and> retryDelay (1/4) 5 \<le> 1.2 * base_delay 5"
  using retry_backoff_monotone_within_jitter [of 1 5 "1/4"]
  by (simp add: base_delay_def retryDelay_def initialDelay_def maxDelay_def
      backoffMultiplier_def)

text \<open>
  Claim C5. A 429 response whose \<^verbatim>\<open>retry-after\<close> header is \<^verbatim>\<open>"60"\<close> hints a wait
  of 60000 ms. On the first failed attempt the delay waited is \<^verbatim>\<open>retryDelay(1)\<close>,
  the jittered backoff around 1000 ms (exactly 1000 ms for the draw 1/2, at most
  1200 ms for any draw), whatever the header says: the claimed precedence of the hint
  does not hold on the code.
\<close>

theorem retry_after_hint_not_waited:
  "waitTime rate_limited_60 = Some 60000 \<and>
   retry_step rnd counter 0 rate_limited_60 = (counter + 1, Some (retryDelay rnd 1)) \<and>
   retry_step (1/2) 0 0 rate_limited_60 = (1, Some 1000) \<and>
   retryDelay 1 1 = 1200"
  by (simp add: waitTime_def rate_limited_60_def parseInt_def digit_val_def hex_val_def
      ascii_space_def two_byte_space_def three_byte_space_def
      retry_step_def retryCondition_def maxRetries_def retryDelay_def base_delay_def
      initialDelay_def maxDelay_def backoffMultiplier_def)

section \<open>Properties of record cleaning\<close>

lemma obj_set_fresh: "k \<notin> fst ` set kvs \<Longrightarrow> obj_set kvs k v = kvs @ [(k, v)]"
  by (induction kvs) auto

lemma set_obj_set: "set (obj_set kvs k v) \<subseteq> insert (k, v) (set kvs)"
  by (induction kvs) (auto split: if_splits)

text \<open>
  A top-level field is dropped by the loop when its code is a system field code, when
  its type tag is read-only, or when its code is \<^verbatim>\<open>__proto__\<close> (the assignment adds no
  entry); every other field is assigned.
\<close>

lemma clean_loop_skip:
  "stripped_kind (k, v) \<or> k = ''__proto__'' \<Longrightarrow>
   clean_loop acc ((k, v) # rest) = clean_loop acc rest"
  by (auto simp add: stripped_kind_def js_assign_def)

lemma clean_loop_keep:
  "\<not> stripped_kind (k, v) \<Longrightarrow> k \<noteq> ''__proto__'' \<Longrightarrow>
   clean_loop acc ((k, v) # rest) = clean_loop (obj_set acc k v) rest"
  by (simp add: stripped_kind_def js_assign_def)

lemma clean_loop_kept:
  "\<forall>f \<in> set acc. \<not> stripped_kind f \<and> fst f \<noteq> ''__proto__'' \<Longrightarrow>
   \<forall>f \<in> set (clean_loop acc r). \<not> stripped_kind f \<and> fst f \<noteq> ''__proto__''"
proof (induction r arbitrary: acc)
  case Nil
  then show ?case by simp
next
  case (Cons x rest)
  obtain k v where x: "x = (k, v)" by (cases x)
  show ?case
  proof (cases "stripped_kind (k, v) \<or> k = ''__proto__''")
    case True
    then show ?thesis
      using Cons.IH [OF Cons.prems] by (simp add: x clean_loop_skip del: clean_loop.simps)
  next
    case False
    have "\<forall>f \<in> set (obj_set acc k v). \<not> stripped_kind f \<and> fst f \<noteq> ''__proto__''"
    proof
      fix f assume "f \<in> set (obj_set acc k v)"
      then have "f = (k, v) \<or> f \<in> set acc"
        using set_obj_set [of acc k v] by auto
      then show "\<not> stripped_kind f \<and> fst f \<noteq> ''__proto__''"
        using False Cons.prems by auto
    qed
    then have "\<forall>f \<in> set (clean_loop (obj_set acc k v) rest).
        \<not> stripped_kind f \<and> fst f \<noteq> ''__proto__''"
      by (rule Cons.IH)
    then show ?thesis
      using False by (simp add: x clean_loop_keep del: clean_loop.simps)
  qed
qed

lemma clean_loop_filter:
  "distinct (map fst acc @ map fst r) \<Longrightarrow>
   clean_loop acc r
     = acc @ filter (\<lambda>f. \<not> stripped_kind f \<and> fst f \<noteq> ''__proto__'') r"
proof (induction r arbitrary: acc)
  case Nil
  then show ?case by simp
next
  case (Cons x rest)
  obtain k v where x: "x = (k, v)" by (cases x)
  have d: "distinct (map fst acc @ map fst rest)"
    using Cons.prems by simp
  show ?case
  proof (cases "stripped_kind (k, v) \<or> k = ''__proto__''")
    case True
    then have "clean_loop acc (x # rest) = clean_loop acc rest"
      unfolding x by (rule clean_loop_skip)
    then show ?thesis
      using Cons.IH [OF d] True by (auto simp: x)
  next
    case False
    have fresh: "k \<notin> fst ` set acc"
      using Cons.prems by (simp add: x)
    have "distinct (map fst (obj_set acc k v) @ map fst rest)"
      using Cons.prems by (simp add: x obj_set_fresh [OF fresh])
    then have "clean_loop (obj_set acc k v) rest
        = obj_set acc k v
          @ filter (\<lambda>f. \<not> stripped_kind f \<and> fst f \<noteq> ''__proto__'') rest"
      by (rule Cons.IH)
    then show ?thesis
      using False by (simp add: x clean_loop_keep obj_set_fresh [OF fresh] del: clean_loop.simps)
  qed
qed

text \<open>
  At the top level the cleaning does what it is written for: no field with a system
  field code or a read-only type tag is left, and for a record with distinct field
  codes the result is the list of the fields not dropped, in order and with their
  values untouched.
\<close>

lemma cleanRecordForRestore_top_level:
  "(\<forall>f \<in> set (cleanRecordForRestore r). \<not> stripped_kind f) \<and>
   (distinct (map fst r) \<longrightarrow>
      cleanRecordForRestore r
        = filter (\<lambda>f. \<not> stripped_kind f \<and> fst f \<noteq> ''__proto__'') r)"
proof (intro conjI impI)
  have "\<forall>f \<in> set (clean_loop [] r). \<not> stripped_kind f \<and> fst f \<noteq> ''__proto__''"
    by (rule clean_loop_kept) simp
  then show "\<forall>f \<in> set (cleanRecordForRestore r). \<not> stripped_kind f"
    by (simp add: cleanRecordForRestore_def)
next
  assume "distinct (map fst r)"
  then have "distinct (map fst [] @ map fst r)"
    by simp
  then have "clean_loop [] r
      = [] @ filter (\<lambda>f. \<not> stripped_kind f \<and> fst f \<noteq> ''__proto__'') r"
    by (rule clean_loop_filter)
  then show "cleanRecordForRestore r
      = filter (\<lambda>f. \<not> stripped_kind f \<and> fst f \<noteq> ''__proto__'') r"
    by (simp add: cleanRecordForRestore_def)
qed

lemma proto_field_dropped:
  "cleanRecordForRestore [(''__proto__'', JObj [(''value'', JStr ''x'')]), (''A'', JStr ''y'')]
     = [(''A'', JStr ''y'')]"
  by (simp add: cleanRecordForRestore_def SYSTEM_FIELDS_def readonly_typed_def js_assign_def)

lemma order_record_cleaned: "cleanRecordForRestore order_record = order_record_kept"
  by (simp add: cleanRecordForRestore_def order_record_def order_record_kept_def calc_field_def
      SYSTEM_FIELDS_def READONLY_FIELD_TYPES_def readonly_typed_def js_assign_def)

text \<open>
  Claim C3. The claim asks that no field with a read-only type tag, computed fields
  included, is left in the cleaned record at any depth. The sample record has the
  computed field \<open>GrandTotal\<close> at the top level and the computed field \<open>Amount\<close> in the
  row of the table \<open>Items\<close>. The cleaning removes the first and, looking at top-level
  fields only, leaves the second in the record that is sent back: a field of the kind
  the function is written to exclude is still there, below the top level.
\<close>

theorem cleanRecordForRestore_keeps_nested_calc:
  "stripped_kind (''GrandTotal'', calc_field) \<and>
   (''GrandTotal'', calc_field) \<in> set (fields_at_any_depth order_record) \<and>
   (''GrandTotal'', calc_field) \<notin> set (fields_at_any_depth (cleanRecordForRestore order_record)) \<and>
   stripped_kind (''Amount'', calc_field) \<and>
   (''Amount'', calc_field) \<in> set (fields_at_any_depth (cleanRecordForRestore order_record))"
proof (intro conjI)
  show "stripped_kind (''GrandTotal'', calc_field)"
    by (simp add: stripped_kind_def readonly_typed_def calc_field_def READONLY_FIELD_TYPES_def)
  show "(''GrandTotal'', calc_field) \<in> set (fields_at_any_depth order_record)"
    by (simp add: order_record_def fields_at_any_depth_def)
  show "(''GrandTotal'', calc_field)
      \<notin> set (fields_at_any_depth (cleanRecordForRestore order_record))"
    by (simp add: order_record_cleaned order_record_kept_def fields_at_any_depth_def
        row_fields_def)
  show "stripped_kind (''Amount'', calc_field)"
    by (simp add: stripped_kind_def readonly_typed_def calc_field_def READONLY_FIELD_TYPES_def)
  show "(''Amount'', calc_field)
      \<in> set (fields_at_any_depth (cleanRecordForRestore order_record))"
    by (simp add: order_record_cleaned order_record_kept_def fields_at_any_depth_def
        row_fields_def)
qed

section \<open>Properties of the metadata store\<close>

lemma find_filter_None: "find P (filter (\<lambda>x. \<not> P x) xs) = None"
  by (induction xs) auto

lemma deleteBackup_completes:
  "deleteBackup faults backupId d = (None, d') \<Longrightarrow>
   d' = delete_backup_rows backupId (delete_index_rows backupId d)"
  by (auto simp: deleteBackup_def Let_def split: option.splits)

text \<open>
  Claim C8. When \<^verbatim>\<open>deleteBackup(id)\<close> completes (neither statement throws), no
  record marker refers to run \<open>id\<close>, the run's row is gone, the markers and the rows of
  other runs are exactly those that were there before, and the tracked apps with their
  last backup times, from which the next differential baseline is read, are as before.
\<close>

theorem deleteBackup_removes_run_and_markers:
  assumes "deleteBackup faults backupId d = (None, d')"
  shows "(\<forall>m \<in> set (record_index d'). ri_last_backup_id m \<noteq> Some backupId) \<and>
         getBackupById d' backupId = None \<and>
         record_index d' = filter (\<lambda>m. ri_last_backup_id m \<noteq> Some backupId) (record_index d) \<and>
         backups d' = filter (\<lambda>r. backup_id r \<noteq> backupId) (backups d) \<and>
         apps d' = apps d \<and>
         getLastBackupDatetime d' appId = getLastBackupDatetime d appId"
proof -
  have d': "d' = delete_backup_rows backupId (delete_index_rows backupId d)"
    using assms by (rule deleteBackup_completes)
  have "getBackupById d' backupId = None"
    by (simp add: d' getBackupById_def delete_backup_rows_def delete_index_rows_def
        find_filter_None)
  then show ?thesis
    by (simp add: d' delete_backup_rows_def delete_index_rows_def getLastBackupDatetime_def)
qed

theorem deleteBackup_removes_run_and_markers_witness:
  "deleteBackup (None, None) 1 sample_db = (None, sample_db_after) \<and>
   list_all (\<lambda>m. ri_last_backup_id m \<noteq> Some 1) (record_index sample_db_after) \<and>
   getBackupById sample_db_after 1 = None \<and>
   record_index sample_db_after
     = filter (\<lambda>m. ri_last_backup_id m \<noteq> Some 1) (record_index sample_db) \<and>
   backups sample_db_after = filter (\<lambda>r. backup_id r \<noteq> 1) (backups sample_db) \<and>
   apps sample_db_after = apps sample_db \<and>
   getLastBackupDatetime sample_db_after ''10'' = getLastBackupDatetime sample_db ''10''"
proof -
  have run: "deleteBackup (None, None) 1 sample_db = (None, sample_db_after)"
    by (simp add: deleteBackup_def delete_index_rows_def delete_backup_rows_def sample_db_def
        sample_db_after_def sample_run_def sample_marker_def)
  from run deleteBackup_removes_run_and_markers [OF run, of "''10''"]
  show ?thesis
    unfolding list_all_iff by blast
qed

text \<open>
  Claim C9, as the code has it. \<^verbatim>\<open>deleteBackup\<close> is all-or-nothing only when it is run
  through \<^verbatim>\<open>transaction\<close>: then the store is left either with both deletions or as it
  was. Called directly, as the delete handler does, a failure of the second statement
  leaves the deletion of the markers in place and the run's row in the table.
\<close>

theorem deleteBackup_atomic_only_in_transaction:
  "snd (transaction (deleteBackup faults backupId) d) =
     (if faults = (None, None)
      then delete_backup_rows backupId (delete_index_rows backupId d) else d) \<and>
   deleteBackup (None, Some e) backupId d = (Some e, delete_index_rows backupId d)"
  by (cases faults) (auto simp: transaction_def deleteBackup_def Let_def split: option.splits)

text \<open>
  Claim C9 as stated fails: with the second statement failing on the sample store, the
  marker of run 1 is deleted (the first effect is visible) and run 1 is still in the
  table (the second is not).
\<close>

theorem deleteBackup_partial_counterexample:
  "deleteBackup (None, Some io_error) 1 sample_db =
     (Some io_error,
      sample_db\<lparr>record_index := [sample_marker ''2'' (Some 2), sample_marker ''3'' None]\<rparr>) \<and>
   record_index (snd (deleteBackup (None, Some io_error) 1 sample_db)) \<noteq> record_index sample_db \<and>
   getBackupById (snd (deleteBackup (None, Some io_error) 1 sample_db)) 1
     = Some (sample_run 1 ''a.zip'')"
  by (simp add: deleteBackup_def delete_index_rows_def getBackupById_def sample_db_def
      sample_marker_def sample_run_def)

section \<open>Properties of a backup run\<close>

text \<open>
  Claim C6. For an app with no recorded last backup time (no row, or a row whose
  \<^verbatim>\<open>last_backup_datetime\<close> is NULL) a differential request makes the same remote call as
  a full request, \<^verbatim>\<open>getAllRecords(appId)\<close>, with no baseline; its outcome is that
  call's outcome, so no error is raised that a full backup would not raise.
\<close>

theorem differential_without_baseline_fetches_all:
  assumes "\<forall>t full. getLastBackupDatetime d appId \<noteq> Some (Some t, full)"
  shows "determine_records env d appId Differential = determine_records env d appId Full \<and>
         determine_records env d appId Differential = (None, remote_getAllRecords env appId)"
  using assms by (auto simp: determine_records_def split: option.splits)

theorem differential_without_baseline_fetches_all_witness:
  "getLastBackupDatetime new_app_db ''10'' = Some (None, None) \<and>
   getLastBackupDatetime new_app_db ''11'' = None \<and>
   determine_records sample_env new_app_db ''10'' Differential = (None, Inr [order_record]) \<and>
   determine_records sample_env new_app_db ''10'' Differential
     = determine_records sample_env new_app_db ''10'' Full \<and>
   determine_records sample_env new_app_db ''11'' Differential
     = determine_records sample_env new_app_db ''11'' Full"
proof -
  have a: "getLastBackupDatetime new_app_db ''10'' = Some (None, None)"
    by (simp add: getLastBackupDatetime_def new_app_db_def)
  have b: "getLastBackupDatetime new_app_db ''11'' = None"
    by (simp add: getLastBackupDatetime_def new_app_db_def)
  have c: "remote_getAllRecords sample_env ''10'' = Inr [order_record]"
    by (simp add: sample_env_def)
  show ?thesis
    using differential_without_baseline_fetches_all [of new_app_db "''10''" sample_env]
      differential_without_baseline_fetches_all [of new_app_db "''11''" sample_env]
    by (auto simp: a b c)
qed

subsection \<open>The row of the run in progress\<close>

text \<open>
  The run's row is the last row of the backups table, and no earlier row has its id;
  the lemmas below follow that row through the steps of \<^verbatim>\<open>backupApp\<close>.
\<close>

lemma find_last_row:
  "\<forall>b \<in> set bs. \<not> P b \<Longrightarrow> P row \<Longrightarrow> find P (bs @ [row]) = Some row"
  by (induction bs) auto

lemma getBackupById_last:
  assumes "backups d = bs @ [row]" and "\<forall>b \<in> set bs. backup_id b \<noteq> cur"
    and "backup_id row = cur"
  shows "getBackupById d cur = Some row"
  using assms by (simp add: getBackupById_def find_last_row)

lemma updateBackup_last:
  assumes "backups d = bs @ [row]" and "\<forall>b \<in> set bs. backup_id b \<noteq> cur"
    and "backup_id row = cur"
  shows "backups (updateBackup d cur upd) = bs @ [upd row]"
proof -
  have "map (\<lambda>r. if backup_id r = cur then upd r else r) bs = bs"
    using assms(2) by (induction bs) auto
  then show ?thesis
    using assms(1,3) by (simp add: updateBackup_def)
qed

lemma backups_upsertRecordIndex:
  "backups (upsertRecordIndex d appId recordId t cur) = backups d"
  by (simp add: upsertRecordIndex_def)

lemma backups_index_loop:
  "index_loop d appId cur startTime rs = (out, d') \<Longrightarrow> backups d' = backups d"
proof (induction rs arbitrary: d)
  case Nil
  then show ?case by simp
next
  case (Cons r rs)
  then show ?case
    by (auto simp: Let_def backups_upsertRecordIndex split: sum.splits)
qed

lemma backups_updateAppLastBackup:
  "backups (updateAppLastBackup d appId t isFull) = backups d"
  by (simp add: updateAppLastBackup_def)

lemma backup_nonempty_row:
  assumes "backups d = bs @ [row]" and "\<forall>b \<in> set bs. backup_id b \<noteq> cur"
    and "backup_id row = cur"
    and "backup_nonempty env d cur appId options appName diffBase records = (res, d', effects)"
  shows "(\<exists>e. res = Inl e \<and> backups d' = bs @ [row]) \<or>
         (\<exists>x name c orig. res = Inr x \<and>
            backups d' = bs @ [finish_success env diffBase (length records) name c orig row])"
proof (cases res)
  case (Inl e)
  then have "backups d' = backups d"
    using assms(4)
    by (auto simp: backup_nonempty_def Let_def backups_index_loop
        split: sum.splits option.splits prod.splits)
  then show ?thesis using Inl assms(1) by simp
next
  case (Inr x)
  then obtain d3 name c orig where
    loop: "index_loop d appId cur (fst (now_start env)) records = (None, d3)" and
    d': "d' = updateAppLastBackup
           (updateBackup d3 cur (finish_success env diffBase (length records) name c orig))
           appId (fst (now_end env)) (backupType options = Full)"
    using assms(4)
    by (auto simp: backup_nonempty_def Let_def split: sum.splits option.splits prod.splits)
  have "backups d3 = bs @ [row]"
    using backups_index_loop [OF loop] assms(1) by simp
  then have "backups d' = bs @ [finish_success env diffBase (length records) name c orig row]"
    using assms(2,3) by (simp add: d' backups_updateAppLastBackup updateBackup_last)
  then show ?thesis using Inr by blast
qed

lemma backup_try_row:
  assumes "backups d = bs @ [row]" and "\<forall>b \<in> set bs. backup_id b \<noteq> cur"
    and "backup_id row = cur"
    and "backup_try env d cur appId options = (res, d', effects)"
  shows "(\<exists>e row'. res = Inl e \<and> backups d' = bs @ [row'] \<and>
            (row' = row \<or> (\<exists>n. row' = row\<lparr>app_name := Some n\<rparr>))) \<or>
         (\<exists>x n diffBase. res = Inr x \<and> effects = [] \<and>
            backups d' = bs @ [finish_empty env diffBase (row\<lparr>app_name := Some n\<rparr>)]) \<or>
         (\<exists>x n diffBase k name c orig. res = Inr x \<and> 0 < k \<and>
            backups d' = bs @ [finish_success env diffBase k name c orig
                                 (row\<lparr>app_name := Some n\<rparr>)])"
proof (cases "remote_getApp env appId")
  case (Inl e)
  then have "res = Inl e" "d' = d"
    using assms(4) by (simp_all add: backup_try_def)
  then show ?thesis using assms(1) by simp
next
  case (Inr appName)
  define d2 where "d2 = updateBackup d cur (\<lambda>r. r\<lparr>app_name := Some appName\<rparr>)"
  have b2: "backups d2 = bs @ [row\<lparr>app_name := Some appName\<rparr>]"
    unfolding d2_def using assms(1,2,3) by (rule updateBackup_last)
  have id2: "backup_id (row\<lparr>app_name := Some appName\<rparr>) = cur"
    using assms(3) by simp
  obtain diffBase fetched where
    det: "determine_records env d2 appId (backupType options) = (diffBase, fetched)"
    by (cases "determine_records env d2 appId (backupType options)")
  show ?thesis
  proof (cases fetched)
    case (Inl e)
    then have "res = Inl e" "d' = d2"
      using assms(4) Inr det by (simp_all add: backup_try_def d2_def)
    then show ?thesis using b2 by auto
  next
    case fetched: (Inr records)
    show ?thesis
    proof (cases "records = []")
      case True
      then have "\<exists>x. res = Inr x" "effects = []"
          "d' = updateBackup d2 cur (finish_empty env diffBase)"
        using assms(4) Inr det fetched by (auto simp: backup_try_def d2_def)
      moreover have "backups (updateBackup d2 cur (finish_empty env diffBase))
          = bs @ [finish_empty env diffBase (row\<lparr>app_name := Some appName\<rparr>)]"
        using b2 assms(2) id2 by (rule updateBackup_last)
      ultimately show ?thesis by auto
    next
      case False
      then have "backup_nonempty env d2 cur appId options appName diffBase records
          = (res, d', effects)"
        using assms(4) Inr det fetched by (simp add: backup_try_def d2_def)
      from backup_nonempty_row [OF b2 assms(2) id2 this]
      show ?thesis
      proof (elim disjE exE conjE)
        fix e
        assume "res = Inl e" "backups d' = bs @ [row\<lparr>app_name := Some appName\<rparr>]"
        then show ?thesis by blast
      next
        fix x name c orig
        assume r: "res = Inr x"
          and b: "backups d' = bs @ [finish_success env diffBase (length records) name c orig
                                       (row\<lparr>app_name := Some appName\<rparr>)]"
        have "0 < length records" using False by simp
        with r b show ?thesis by blast
      qed
    qed
  qed
qed

lemma insertBackup_row:
  assumes "insertBackup d appId kind trigger startTime host version = (cur, d1)"
  shows "cur = backups_seq d + 1 \<and>
         (\<exists>row0. backups d1 = backups d @ [row0] \<and> backup_id row0 = cur \<and>
            status row0 = Running \<and> record_count row0 = None \<and> file_path row0 = None)"
  using assms by (auto simp: insertBackup_def Let_def)

text \<open>
  Claim C4. In a store whose backup ids do not exceed the AUTOINCREMENT counter, every
  run of \<^verbatim>\<open>backupApp\<close>, returning or throwing, leaves its row in a terminal state in
  which: a successful run with a positive record count has a file path; a run with
  record count 0 has no file path, and it wrote no archive and fetched no attachment.
\<close>

theorem backupApp_archive_reference:
  assumes wf: "\<forall>b \<in> set (backups d). backup_id b \<le> backups_seq d"
    and run: "backupApp env d appId options = (res, d', effects)"
  shows "\<exists>r. getBackupById d' (backups_seq d + 1) = Some r \<and> status r \<noteq> Running \<and>
           (status r = Success \<and> (\<exists>n. record_count r = Some n \<and> 0 < n)
              \<longrightarrow> file_path r \<noteq> None) \<and>
           (record_count r = Some 0 \<longrightarrow> file_path r = None \<and> effects = [])"
proof -
  obtain cur d1 where
    ins: "insertBackup d appId (backupType options) (triggerType options)
            (fst (now_start env)) (opt_hostname options) (appVersion options) = (cur, d1)"
    by (cases "insertBackup d appId (backupType options) (triggerType options)
            (fst (now_start env)) (opt_hostname options) (appVersion options)")
  from insertBackup_row [OF ins] obtain row0 where
    cur: "cur = backups_seq d + 1" and
    b1: "backups d1 = backups d @ [row0]" and
    id0: "backup_id row0 = cur" and
    f0: "status row0 = Running" "record_count row0 = None" "file_path row0 = None"
    by blast
  have ids: "\<forall>b \<in> set (backups d). backup_id b \<noteq> cur"
    using wf cur by auto
  obtain r2 d2 e2 where trial: "backup_try env d1 cur appId options = (r2, d2, e2)"
    by (cases "backup_try env d1 cur appId options")
  note rows = backup_try_row [OF b1 ids id0 trial]
  show ?thesis
  proof (cases r2)
    case (Inl e)
    then have d': "d' = updateBackup d2 cur (finish_failure env e)"
      using run ins trial by (simp add: backupApp_def)
    from rows Inl obtain row' where
      b2: "backups d2 = backups d @ [row']" and
      r': "row' = row0 \<or> (\<exists>n. row' = row0\<lparr>app_name := Some n\<rparr>)"
      by auto
    have id': "backup_id row' = cur"
      using r' id0 by auto
    have "backups d' = backups d @ [finish_failure env e row']"
      unfolding d' using b2 ids id' by (rule updateBackup_last)
    then have "getBackupById d' cur = Some (finish_failure env e row')"
      using ids id' by (intro getBackupById_last) (simp_all add: finish_failure_def)
    moreover have "status (finish_failure env e row') = Failure"
      "record_count (finish_failure env e row') = None"
      using r' f0 by (auto simp: finish_failure_def)
    ultimately show ?thesis
      unfolding cur by simp
  next
    case (Inr x)
    then have d': "d' = d2" "effects = e2"
      using run ins trial by (simp_all add: backupApp_def)
    from rows Inr consider
      (empty) n diffBase where "e2 = []"
        "backups d2 = backups d @ [finish_empty env diffBase (row0\<lparr>app_name := Some n\<rparr>)]"
    | (nonempty) n diffBase k name c orig where "0 < k"
        "backups d2 = backups d @ [finish_success env diffBase k name c orig
                                     (row0\<lparr>app_name := Some n\<rparr>)]"
      by auto
    then show ?thesis
    proof cases
      case empty
      have "getBackupById d' cur
          = Some (finish_empty env diffBase (row0\<lparr>app_name := Some n\<rparr>))"
        unfolding d' using empty(2) ids
        by (rule getBackupById_last) (simp add: finish_empty_def id0)
      then show ?thesis
        unfolding cur using f0 empty(1) d'(2) by (simp add: finish_empty_def)
    next
      case nonempty
      have "getBackupById d' cur
          = Some (finish_success env diffBase k name c orig (row0\<lparr>app_name := Some n\<rparr>))"
        unfolding d' using nonempty(2) ids
        by (rule getBackupById_last) (simp add: finish_success_def id0)
      then show ?thesis
        unfolding cur using nonempty(1) by (simp add: finish_success_def)
    qed
  qed
qed

lemma sample_differential_run:
  "map_option (\<lambda>r. (status r, record_count r))
     (getBackupById (fst (snd (backupApp sample_env sample_db ''10'' (sample_options Differential)))) 3)
   = Some (Success, Some 0) \<and>
   snd (snd (backupApp sample_env sample_db ''10'' (sample_options Differential))) = []"
  by (simp add: backupApp_def backup_try_def insertBackup_def determine_records_def
      getLastBackupDatetime_def updateBackup_def getBackupById_def finish_empty_def
      sample_env_def sample_db_def sample_options_def sample_app_def sample_run_def Let_def)

lemma sample_full_run:
  "map_option (\<lambda>r. (status r, record_count r))
     (getBackupById (fst (snd (backupApp sample_env new_app_db ''10'' (sample_options Full)))) 1)
   = Some (Success, Some 1) \<and>
   snd (snd (backupApp sample_env new_app_db ''10'' (sample_options Full)))
   = [ArchiveWritten ''app_10_2024-02-01_10-00-02_full.zip'', AttachmentsFetched,
      AuditLogged Success]"
  by (simp add: backupApp_def backup_try_def backup_nonempty_def insertBackup_def
      determine_records_def getLastBackupDatetime_def updateBackup_def getBackupById_def
      finish_success_def updateAppLastBackup_def upsertRecordIndex_def id_value_def
      bind_text_def js_or_def truthy_opt_def field_value_def zip_timestamp_def zipFileName_def
      kind_name_def order_record_def calc_field_def updated_time_ja_def
      sample_env_def new_app_db_def sample_options_def Let_def)

theorem backupApp_archive_reference_witness:
  "list_all (\<lambda>b. backup_id b \<le> backups_seq sample_db) (backups sample_db) \<and>
   (\<exists>r. getBackupById
          (fst (snd (backupApp sample_env sample_db ''10'' (sample_options Differential)))) 3
          = Some r \<and>
        status r = Success \<and> record_count r = Some 0 \<and> file_path r = None) \<and>
   (\<exists>r. getBackupById
          (fst (snd (backupApp sample_env new_app_db ''10'' (sample_options Full)))) 1
          = Some r \<and>
        status r = Success \<and> record_count r = Some 1 \<and> file_path r \<noteq> None)"
proof (intro conjI)
  show "list_all (\<lambda>b. backup_id b \<le> backups_seq sample_db) (backups sample_db)"
    by (simp add: sample_db_def sample_run_def)
next
  have wf: "\<forall>b \<in> set (backups sample_db). backup_id b \<le> backups_seq sample_db"
    by (simp add: sample_db_def sample_run_def)
  obtain res d' effects where
    run: "backupApp sample_env sample_db ''10'' (sample_options Differential)
            = (res, d', effects)"
    by (cases "backupApp sample_env sample_db ''10'' (sample_options Differential)")
  have seq: "backups_seq sample_db + 1 = 3"
    by (simp add: sample_db_def)
  from backupApp_archive_reference [OF wf run] obtain r where
    r: "getBackupById d' 3 = Some r" and
    none: "record_count r = Some 0 \<longrightarrow> file_path r = None \<and> effects = []"
    unfolding seq by blast
  have "status r = Success \<and> record_count r = Some 0"
    using sample_differential_run r by (simp add: run)
  then show "\<exists>r. getBackupById
      (fst (snd (backupApp sample_env sample_db ''10'' (sample_options Differential)))) 3
      = Some r \<and> status r = Success \<and> record_count r = Some 0 \<and> file_path r = None"
    using r none by (simp add: run)
next
  have wf: "\<forall>b \<in> set (backups new_app_db). backup_id b \<le> backups_seq new_app_db"
    by (simp add: new_app_db_def)
  obtain res d' effects where
    run: "backupApp sample_env new_app_db ''10'' (sample_options Full) = (res, d', effects)"
    by (cases "backupApp sample_env new_app_db ''10'' (sample_options Full)")
  have seq: "backups_seq new_app_db + 1 = 1"
    by (simp add: new_app_db_def)
  from backupApp_archive_reference [OF wf run] obtain r where
    r: "getBackupById d' 1 = Some r" and
    some: "status r = Success \<and> (\<exists>n. record_count r = Some n \<and> 0 < n)
             \<longrightarrow> file_path r \<noteq> None"
    unfolding seq by blast
  have "status r = Success \<and> record_count r = Some 1"
    using sample_full_run r by (simp add: run)
  then show "\<exists>r. getBackupById
      (fst (snd (backupApp sample_env new_app_db ''10'' (sample_options Full)))) 1
      = Some r \<and> status r = Success \<and> record_count r = Some 1 \<and> file_path r \<noteq> None"
    using r some by (simp add: run)
qed

subsection \<open>The bound on the backup ids is kept\<close>

lemma backups_seq_index_loop:
  "index_loop d appId cur startTime rs = (out, d') \<Longrightarrow> backups_seq d' = backups_seq d"
proof (induction rs arbitrary: d)
  case Nil
  then show ?case by simp
next
  case (Cons r rs)
  then show ?case
    by (auto simp: Let_def upsertRecordIndex_def split: sum.splits)
qed

lemma backups_seq_backup_nonempty:
  "backup_nonempty env d cur appId options appName diffBase records = (res, d', effects) \<Longrightarrow>
   backups_seq d' = backups_seq d"
  by (auto simp: backup_nonempty_def Let_def updateBackup_def updateAppLastBackup_def
      dest: backups_seq_index_loop split: sum.splits option.splits prod.splits)

lemma backups_seq_backup_try:
  "backup_try env d cur appId options = (res, d', effects) \<Longrightarrow>
   backups_seq d' = backups_seq d"
  by (auto simp: backup_try_def Let_def updateBackup_def
      dest: backups_seq_backup_nonempty split: sum.splits prod.splits if_splits)

lemma backupApp_keeps_ids_bounded:
  assumes wf: "\<forall>b \<in> set (backups d). backup_id b \<le> backups_seq d"
    and run: "backupApp env d appId options = (res, d', effects)"
  shows "\<forall>b \<in> set (backups d'). backup_id b \<le> backups_seq d'"
proof -
  obtain cur d1 where
    ins: "insertBackup d appId (backupType options) (triggerType options)
            (fst (now_start env)) (opt_hostname options) (appVersion options) = (cur, d1)"
    by (cases "insertBackup d appId (backupType options) (triggerType options)
            (fst (now_start env)) (opt_hostname options) (appVersion options)")
  from insertBackup_row [OF ins] obtain row0 where
    cur: "cur = backups_seq d + 1" and
    b1: "backups d1 = backups d @ [row0]" and
    id0: "backup_id row0 = cur"
    by blast
  have seq1: "backups_seq d1 = cur"
    using ins by (auto simp: insertBackup_def Let_def)
  have ids: "\<forall>b \<in> set (backups d). backup_id b \<noteq> cur"
    using wf cur by auto
  obtain r2 d2 e2 where trial: "backup_try env d1 cur appId options = (r2, d2, e2)"
    by (cases "backup_try env d1 cur appId options")
  have seq2: "backups_seq d2 = cur"
    using backups_seq_backup_try [OF trial] seq1 by simp
  from backup_try_row [OF b1 ids id0 trial] obtain row2 where
    b2: "backups d2 = backups d @ [row2]" and id2: "backup_id row2 = cur"
    using id0 by (auto simp: finish_empty_def finish_success_def)
  have bounded2: "\<forall>b \<in> set (backups d2). backup_id b \<le> backups_seq d2"
    using wf cur b2 id2 seq2 by auto
  show ?thesis
  proof (cases r2)
    case (Inl e)
    then have d': "d' = updateBackup d2 cur (finish_failure env e)"
      using run ins trial by (simp add: backupApp_def)
    have "backups d' = backups d @ [finish_failure env e row2]"
      unfolding d' using b2 ids id2 by (rule updateBackup_last)
    moreover have "backups_seq d' = cur"
      by (simp add: d' updateBackup_def seq2)
    ultimately show ?thesis
      using wf cur id2 by (auto simp: finish_failure_def)
  next
    case (Inr x)
    then have "d' = d2"
      using run ins trial by (simp add: backupApp_def)
    then show ?thesis using bounded2 by simp
  qed
qed

section \<open>Properties of the restore\<close>

lemma partition_loop_acc:
  "partition_loop mapping updates adds cleanedRecords recordNumberList =
     (updates @ map (\<lambda>(rec, num). (the (mappedId_of mapping num), rec))
        (filter (\<lambda>(rec, num). mappedId_of mapping num \<notin> {None, Some []})
           (zip cleanedRecords recordNumberList)),
      adds @ map fst
        (filter (\<lambda>(rec, num). mappedId_of mapping num \<in> {None, Some []})
           (zip cleanedRecords recordNumberList)))"
proof (induction mapping updates adds cleanedRecords recordNumberList
    rule: partition_loop.induct)
  case (1 mapping updates adds rec cleanedRecords num recordNumberList)
  show ?case
  proof (cases "mappedId_of mapping num")
    case None
    then show ?thesis using "1.IH"(1) by simp
  next
    case (Some mappedId)
    then show ?thesis
      using "1.IH"(2) [OF Some] "1.IH"(3) [OF Some] by (cases "mappedId = []") simp_all
  qed
qed simp_all

lemma mappedId_not_empty:
  "\<forall>k. map_of mapping k \<noteq> Some (Some []) \<Longrightarrow> mappedId_of mapping num \<noteq> Some []"
  by (auto simp: mappedId_of_def split: option.splits)

text \<open>
  Claim C7. Let no identifier in the resolution mapping be the empty string. Then the
  update partition is, in order, the cleaned records whose key is not null and is mapped
  to an identifier, each paired with that identifier; the add partition is, in order,
  every other cleaned record (key null, key absent from the mapping, or key mapped to
  null). A record is placed by its position, so no resolved record is among the adds.
  The mapping a restore builds meets the condition when the service sends identifiers
  as strings (\<open>restore_mapping_no_empty\<close> below), and so does the empty mapping used
  when the resolution fails.
\<close>

theorem partition_by_resolution:
  assumes "\<forall>k. map_of mapping k \<noteq> Some (Some [])"
  shows "partition_loop mapping [] [] cleanedRecords recordNumberList =
     (map (\<lambda>(rec, num). (the (mappedId_of mapping num), rec))
        (filter (\<lambda>(rec, num). mappedId_of mapping num \<noteq> None)
           (zip cleanedRecords recordNumberList)),
      map fst
        (filter (\<lambda>(rec, num). mappedId_of mapping num = None)
           (zip cleanedRecords recordNumberList)))"
proof -
  have ne: "\<And>num. mappedId_of mapping num \<noteq> Some []"
    using assms by (rule mappedId_not_empty)
  have a: "(\<lambda>(rec :: kintone_record, num). mappedId_of mapping num \<notin> {None, Some []})
      = (\<lambda>(rec, num). mappedId_of mapping num \<noteq> None)"
    using ne by auto
  have b: "(\<lambda>(rec :: kintone_record, num). mappedId_of mapping num \<in> {None, Some []})
      = (\<lambda>(rec, num). mappedId_of mapping num = None)"
    using ne by auto
  show ?thesis
    unfolding partition_loop_acc a b by simp
qed

subsection \<open>The mapping built by the resolution holds no empty identifier\<close>

lemma map_of_obj_set: "map_of (obj_set m k v) k' = (if k' = k then Some v else map_of m k')"
  by (induction m) auto

lemma string_valued_truthy:
  "string_valued v \<Longrightarrow> truthy_opt v \<Longrightarrow> \<exists>s. v = Some (JStr s) \<and> s \<noteq> []"
  by (auto simp: string_valued_def truthy_opt_def split: option.splits jvalue.splits)

lemma idVal_of_string:
  assumes "\<forall>c \<in> set (id_candidates rec). string_valued c" and "truthy_opt (idVal_of rec)"
  shows "\<exists>s. map_option js_String (idVal_of rec) = Some s \<and> s \<noteq> []"
proof -
  have "idVal_of rec \<in> set (id_candidates rec)"
    by (simp add: idVal_of_def js_or_def id_candidates_def)
  then have "string_valued (idVal_of rec)"
    using assms(1) by blast
  from string_valued_truthy [OF this assms(2)] show ?thesis
    by auto
qed

lemma collect_ids_no_empty:
  assumes "\<forall>rec \<in> set recs. \<forall>c \<in> set (id_candidates rec). string_valued c"
    and "\<forall>k. map_of resultMap k \<noteq> Some (Some [])"
  shows "map_of (collect_ids fieldCode resultMap recs) k \<noteq> Some (Some [])"
  using assms
proof (induction recs arbitrary: resultMap)
  case Nil
  then show ?case by simp
next
  case (Cons rec recs)
  have rest: "\<forall>rec \<in> set recs. \<forall>c \<in> set (id_candidates rec). string_valued c"
    using Cons.prems(1) by simp
  show ?case
  proof (cases "truthy_opt (nested_value rec fieldCode) \<and> truthy_opt (idVal_of rec)")
    case False
    then have "collect_ids fieldCode resultMap (rec # recs) = collect_ids fieldCode resultMap recs"
      by (auto simp: Let_def)
    then show ?thesis using Cons.IH [OF rest Cons.prems(2)] by simp
  next
    case True
    then obtain s where s: "map_option js_String (idVal_of rec) = Some s" "s \<noteq> []"
      using idVal_of_string [of rec] Cons.prems(1) by auto
    define key where
      "key = (case nested_value rec fieldCode of Some v \<Rightarrow> js_String v | None \<Rightarrow> [])"
    have step: "collect_ids fieldCode resultMap (rec # recs)
        = collect_ids fieldCode (obj_set resultMap key (Some s)) recs"
      using True by (simp add: Let_def key_def s(1))
    have "\<forall>k. map_of (obj_set resultMap key (Some s)) k \<noteq> Some (Some [])"
      using Cons.prems(2) s(2) by (simp add: map_of_obj_set)
    from Cons.IH [OF rest this] show ?thesis
      unfolding step .
  qed
qed

lemma query_batches_no_empty:
  assumes "string_ids env appId" and "\<forall>k. map_of resultMap k \<noteq> Some (Some [])"
  shows "map_of (query_batches env appId fieldCode resultMap chunks) k \<noteq> Some (Some [])"
  using assms(2)
proof (induction chunks arbitrary: resultMap)
  case Nil
  then show ?case by simp
next
  case (Cons chunk chunks)
  show ?case
  proof (cases "remote_getRecords env appId (build_query fieldCode chunk)")
    case (Inl e)
    then show ?thesis using Cons by simp
  next
    case (Inr records)
    have "\<forall>rec \<in> set records. \<forall>c \<in> set (id_candidates rec). string_valued c"
      using assms(1) Inr unfolding string_ids_def by blast
    then have "\<forall>k. map_of (collect_ids fieldCode resultMap records) k \<noteq> Some (Some [])"
      using Cons.prems collect_ids_no_empty by blast
    from Cons.IH [OF this] show ?thesis
      using Inr by simp
  qed
qed

lemma init_map_no_empty:
  "\<forall>k. map_of resultMap k \<noteq> Some (Some []) \<Longrightarrow>
   map_of (init_map resultMap rns) k \<noteq> Some (Some [])"
proof (induction rns arbitrary: resultMap)
  case Nil
  then show ?case by simp
next
  case (Cons rn rns)
  have "\<forall>k. map_of (obj_set resultMap rn None) k \<noteq> Some (Some [])"
    using Cons.prems by (simp add: map_of_obj_set)
  from Cons.IH [OF this] show ?case by simp
qed

lemma restore_mapping_no_empty:
  assumes "string_ids env appId"
  shows "map_of (restore_mapping env appId recordNumberList) k \<noteq> Some (Some [])"
proof -
  have init: "\<forall>k. map_of (init_map [] rns) k \<noteq> Some (Some [])" for rns
    using init_map_no_empty [of "[]" rns] by simp
  have "map_of (findRecordIdsByRecordNumbers env appId rns) k \<noteq> Some (Some [])" for rns
    using init [of rns] query_batches_no_empty [OF assms init [of rns]]
    by (auto simp: findRecordIdsByRecordNumbers_def Let_def split: option.splits)
  then show ?thesis
    by (simp add: restore_mapping_def Let_def)
qed

lemma sample_mapping_resolved:
  "restore_mapping sample_resolver ''10'' [Some ''1'', Some ''2'', None] = sample_mapping"
  by (simp add: restore_mapping_def uniqueRecordNumbers_def findRecordIdsByRecordNumbers_def
      batches.simps batchSize_def build_query_def format_value_def numeric_looking_def
      is_digit_def nested_value_def idVal_of_def js_or_def truthy_opt_def
      sample_resolver_def sample_mapping_def Let_def)

theorem partition_by_resolution_witness:
  "(\<forall>k. map_of sample_mapping k \<noteq> Some (Some [])) \<and>
   mappedId_of sample_mapping (Some ''1'') = Some ''101'' \<and>
   mappedId_of sample_mapping (Some ''2'') = None \<and>
   partition_loop sample_mapping [] []
     [cleaned ''ACME'', cleaned ''Globex'', cleaned ''Initech''] [Some ''1'', Some ''2'', None]
   = ([(''101'', cleaned ''ACME'')], [cleaned ''Globex'', cleaned ''Initech''])"
proof -
  have h: "\<forall>k. map_of sample_mapping k \<noteq> Some (Some [])"
    by (simp add: sample_mapping_def)
  show ?thesis
    using h partition_by_resolution [OF h,
        of "[cleaned ''ACME'', cleaned ''Globex'', cleaned ''Initech'']"
           "[Some ''1'', Some ''2'', None]"]
    by (simp add: mappedId_of_def sample_mapping_def)
qed

subsection \<open>The status of a restore\<close>

lemma restore_status_two_partitions:
  assumes "updates \<noteq> []" and "adds \<noteq> []"
  shows "restore_status (apply_partitions None (Inr res) updates adds) = Success"
    and "restore_status (apply_partitions (Some e) (Inl e') updates adds) = Failure"
    and "restore_status (apply_partitions None (Inl e') updates adds) = PartialSuccess"
    and "res \<noteq> [] \<Longrightarrow>
         restore_status (apply_partitions (Some e) (Inr res) updates adds) = PartialSuccess"
  using assms by (simp_all add: restore_status_def apply_partitions_def)

text \<open>
  Claim C1. When one partition is attempted and it fails, no count is positive and
  only one of the two failure flags is set, so neither test of the status derivation
  holds and the status stays at its initial value, success: for a failed update with
  nothing to add, for a failed add with nothing to update, and for the whole of
  \<^verbatim>\<open>restoreBackup\<close> on the sample restore, which returns \<^verbatim>\<open>success: true\<close> with
  both counts 0. The claim says failure.
\<close>

theorem restore_single_failed_partition_is_success:
  "restore_status (apply_partitions (Some err) add_out [u] []) = Success \<and>
   restore_status (apply_partitions upd_out (Inl err) [] [a]) = Success \<and>
   restoreBackup failing_update_env sample_db 1 None =
     Inr \<lparr>rr_success = True, rr_status = Success, rr_recordCount = 1, rr_addedCount = 0,
          rr_updatedCount = 0, rr_updates = [(''101'', cleaned ''ACME'')], rr_adds = []\<rparr>"
proof (intro conjI)
  show "restore_status (apply_partitions (Some err) add_out [u] []) = Success"
    by (simp add: restore_status_def apply_partitions_def)
  show "restore_status (apply_partitions upd_out (Inl err) [] [a]) = Success"
    by (simp add: restore_status_def apply_partitions_def)
  have m: "restore_mapping sample_resolver ''10'' [Some ''1''] = [(''1'', Some ''101'')]"
    by (simp add: restore_mapping_def uniqueRecordNumbers_def findRecordIdsByRecordNumbers_def
        batches.simps batchSize_def build_query_def format_value_def numeric_looking_def
        is_digit_def nested_value_def idVal_of_def js_or_def truthy_opt_def
        sample_resolver_def Let_def)
  have c: "cleanRecordForRestore (archived ''1'' ''ACME'') = cleaned ''ACME''"
    by (simp add: cleanRecordForRestore_def archived_def cleaned_def SYSTEM_FIELDS_def
        READONLY_FIELD_TYPES_def readonly_typed_def js_assign_def)
  have k: "record_key (archived ''1'' ''ACME'') = Some ''1''"
    by (simp add: record_key_def archived_def field_value_def truthy_opt_def)
  have b: "getBackupById sample_db 1 = Some (sample_run 1 ''a.zip'')"
    by (simp add: getBackupById_def sample_db_def sample_run_def)
  show "restoreBackup failing_update_env sample_db 1 None =
     Inr \<lparr>rr_success = True, rr_status = Success, rr_recordCount = 1, rr_addedCount = 0,
          rr_updatedCount = 0, rr_updates = [(''101'', cleaned ''ACME'')], rr_adds = []\<rparr>"
    by (simp add: restoreBackup_def b failing_update_env_def c k m sample_run_def
        mappedId_of_def apply_partitions_def restore_status_def)
qed

section \<open>Properties of the archive codec\<close>

text \<open>
  The text of \<^verbatim>\<open>records.json\<close> is put together intact when every buffer decodes to
  itself, as every buffer of ASCII bytes does.
\<close>

lemma utf8_decode_ascii:
  "\<forall>b \<in> set bs. (of_char b :: nat) \<le> 0x7F \<Longrightarrow> utf8_decode [] 0 0x80 0xBF bs = bs"
  by (induction bs) simp_all

lemma toString_ascii: "\<forall>b \<in> set chunk. (of_char b :: nat) \<le> 0x7F \<Longrightarrow> toString chunk = chunk"
  by (simp add: toString_def utf8_decode_ascii)

lemma reassemble_intact:
  "\<forall>chunk \<in> set chunks. toString chunk = chunk \<Longrightarrow>
   foldl (\<lambda>acc chunk. acc @ toString chunk) recordsJson chunks = recordsJson @ concat chunks"
  by (induction chunks arbitrary: recordsJson) simp_all

lemma cafe_container: "fst (createBackupZip sample_zip_env ''10'' [cafe_record]) = 88"
  by code_simp

lemma cafe_single_chunk:
  "extractBackupZip (read_container (\<lambda>bs. [bs])
      (snd (createBackupZip sample_zip_env ''10'' [cafe_record]))) = Inr [JObj cafe_record]"
  by code_simp

subsection \<open>One record with a long value\<close>

text \<open>
  For the record list holding one record \<open>name_record v\<close> the text written is
  \<open>json_pre @ v @ json_post\<close>. With an ASCII value the records come back as written
  however the entry is cut into buffers (\<open>extract_ascii_value\<close>); with a value of
  16313 ASCII characters and one two-byte character, read in blocks of 16384 bytes, they
  do not (\<open>extract_split_character\<close>).
\<close>

lemma escape_plain: "plain_char c \<Longrightarrow> escape_char c = [c]"
  by (auto simp: plain_char_def escape_char_def Let_def)

lemma escape_plain_all: "\<forall>c \<in> set v. plain_char c \<Longrightarrow> concat (map escape_char v) = v"
  by (induction v) (simp_all add: escape_plain)

lemma stringify_name_record:
  "\<forall>c \<in> set v. plain_char c \<Longrightarrow>
   JSON_stringify (JArr [JObj (name_record v)]) = json_pre @ v @ json_post"
  by (simp add: JSON_stringify_def name_record_def quote_def indent_def escape_plain_all
      escape_char_def json_pre_def json_post_def numeral_2_eq_2)

lemma utf8_decode_ascii_append:
  "\<forall>b \<in> set xs. (of_char b :: nat) \<le> 0x7F \<Longrightarrow>
   utf8_decode [] 0 0x80 0xBF (xs @ ys) = xs @ utf8_decode [] 0 0x80 0xBF ys"
  by (induction xs) simp_all

lemma json_pre_ascii: "\<forall>b \<in> set json_pre. (of_char b :: nat) \<le> 0x7F"
  by (simp add: json_pre_def)

lemma json_post_ascii: "\<forall>b \<in> set json_post. (of_char b :: nat) \<le> 0x7F"
  by (simp add: json_post_def)

lemma json_pre_length: "length json_pre = 70"
  by (simp add: json_pre_def)

lemma toString_first_block:
  assumes "\<forall>b \<in> set xs. (of_char b :: nat) \<le> 0x7F"
  shows "toString (json_pre @ xs @ [CHR 0xC3]) = json_pre @ xs @ replacement"
proof -
  have "\<forall>b \<in> set (json_pre @ xs). (of_char b :: nat) \<le> 0x7F"
    using assms json_pre_ascii by auto
  from utf8_decode_ascii_append [OF this, of "[CHR 0xC3]"] show ?thesis
    by (simp add: toString_def)
qed

lemma toString_second_block: "toString (CHR 0xA9 # json_post) = replacement @ json_post"
  using utf8_decode_ascii [OF json_post_ascii] by (simp add: toString_def)

lemma blocks_two:
  assumes "length a = n" and "b \<noteq> []" and "length b \<le> n"
  shows "blocks n (a @ b) = [a, b]"
proof -
  have n: "0 < n" using assms(2,3) by (cases b) auto
  have "blocks n b = [b]"
    using assms(2,3) n by (simp add: blocks.simps [of n b] blocks.simps [of n "[]"])
  then show ?thesis
    using assms(1,2) n by (simp add: blocks.simps [of n "a @ b"])
qed

lemma parse_chars_plain:
  "\<forall>c \<in> set xs. plain_char c \<Longrightarrow>
   parse_chars acc (xs @ CHR 0x22 # rest) = Some (acc @ xs, rest)"
proof (induction xs arbitrary: acc)
  case Nil
  then show ?case by (cases rest) simp_all
next
  case (Cons x xs)
  then have x: "x \<noteq> CHR 0x22" "x \<noteq> CHR 0x5C" "\<not> (of_char x :: nat) < 32"
    by (auto simp: plain_char_def)
  obtain e cs where tail: "xs @ CHR 0x22 # rest = e # cs"
    by (cases xs) auto
  have "parse_chars acc ((x # xs) @ CHR 0x22 # rest) = parse_chars (acc @ [x]) (e # cs)"
    using x by (simp add: tail)
  also have "\<dots> = Some ((acc @ [x]) @ xs, rest)"
    unfolding tail [symmetric] using Cons.prems by (intro Cons.IH) simp
  finally show ?case by simp
qed

lemma parse_name_text:
  assumes "\<forall>c \<in> set v. plain_char c"
  shows "parse_value (Suc (Suc (Suc (Suc (Suc (Suc (Suc (Suc m))))))))
           (json_pre @ v @ json_post) = Some (JArr [JObj (name_record v)], [])"
  using parse_chars_plain [OF assms]
  by (simp add: json_pre_def json_post_def skip_ws_def is_ws_def name_record_def Let_def)

lemma JSON_parse_name_text:
  assumes "\<forall>c \<in> set v. plain_char c"
  shows "JSON_parse (json_pre @ v @ json_post) = Some (JArr [JObj (name_record v)])"
proof -
  have "7 \<le> length (json_pre @ v @ json_post)"
    by (simp add: json_pre_length)
  then obtain m where "length (json_pre @ v @ json_post) = 7 + m"
    using le_iff_add by blast
  then have "Suc (length (json_pre @ v @ json_post))
      = Suc (Suc (Suc (Suc (Suc (Suc (Suc (Suc m)))))))"
    by arith
  then show ?thesis
    using parse_name_text [OF assms, of m] by (simp add: JSON_parse_def skip_ws_def)
qed

lemma plain_high_bytes:
  "plain_char (CHR 0xC3)" "plain_char (CHR 0xA9)" "\<forall>c \<in> set replacement. plain_char c"
  by (simp_all add: plain_char_def replacement_def)

lemma extract_split_character:
  assumes ascii: "\<forall>b \<in> set xs. (of_char b :: nat) \<le> 0x7F"
    and plain: "\<forall>c \<in> set xs. plain_char c"
    and len: "length xs = 16313"
  shows "extractBackupZip (read_container (blocks 16384)
           (snd (createBackupZip env appId [name_record (xs @ [CHR 0xC3, CHR 0xA9])])))
         = Inr [JObj (name_record (xs @ replacement @ replacement))]"
proof -
  have "\<forall>c \<in> set (xs @ [CHR 0xC3, CHR 0xA9]). plain_char c"
    using plain plain_high_bytes by simp
  then have written: "JSON_stringify (JArr [JObj (name_record (xs @ [CHR 0xC3, CHR 0xA9]))])
      = json_pre @ xs @ CHR 0xC3 # CHR 0xA9 # json_post"
    by (simp add: stringify_name_record)
  have "length (json_pre @ xs @ [CHR 0xC3]) = 16384"
    by (simp add: json_pre_length len)
  then have "blocks 16384 ((json_pre @ xs @ [CHR 0xC3]) @ (CHR 0xA9 # json_post))
      = [json_pre @ xs @ [CHR 0xC3], CHR 0xA9 # json_post]"
    by (rule blocks_two) (simp_all add: json_post_def)
  then have cut: "blocks 16384 (json_pre @ xs @ CHR 0xC3 # CHR 0xA9 # json_post)
      = [json_pre @ xs @ [CHR 0xC3], CHR 0xA9 # json_post]"
    by simp
  have "\<forall>c \<in> set (xs @ replacement @ replacement). plain_char c"
    using plain plain_high_bytes by auto
  then have "JSON_parse (json_pre @ (xs @ replacement @ replacement) @ json_post)
      = Some (JArr [JObj (name_record (xs @ replacement @ replacement))])"
    by (rule JSON_parse_name_text)
  then have parsed: "JSON_parse (json_pre @ xs @ replacement @ replacement @ json_post)
      = Some (JArr [JObj (name_record (xs @ replacement @ replacement))])"
    by simp
  show ?thesis
    by (simp add: extractBackupZip_def read_container_def createBackupZip_def Let_def
        written cut toString_first_block [OF ascii] toString_second_block parsed spread_def)
qed

lemma extract_ascii_value:
  assumes plain: "\<forall>c \<in> set v. plain_char c"
    and ascii: "\<forall>c \<in> set v. (of_char c :: nat) \<le> 0x7F"
    and chunking: "\<And>bs. concat (chunking bs) = bs"
  shows "extractBackupZip (read_container chunking
           (snd (createBackupZip env appId [name_record v])))
         = Inr [JObj (name_record v)]"
proof -
  have written: "JSON_stringify (JArr [JObj (name_record v)]) = json_pre @ v @ json_post"
    using plain by (rule stringify_name_record)
  have "\<forall>b \<in> set (json_pre @ v @ json_post). (of_char b :: nat) \<le> 0x7F"
    using ascii json_pre_ascii json_post_ascii by auto
  then have "\<forall>b \<in> set (concat (chunking (json_pre @ v @ json_post))). (of_char b :: nat) \<le> 0x7F"
    by (simp only: chunking)
  then have "\<forall>chunk \<in> set (chunking (json_pre @ v @ json_post)). toString chunk = chunk"
    by (auto intro: toString_ascii)
  then have joined: "foldl (\<lambda>acc chunk. acc @ toString chunk) []
      (chunking (json_pre @ v @ json_post)) = json_pre @ v @ json_post"
    using reassemble_intact [of "chunking (json_pre @ v @ json_post)" "[]"]
    by (simp add: chunking)
  show ?thesis
    by (simp add: extractBackupZip_def read_container_def createBackupZip_def Let_def
        written joined JSON_parse_name_text [OF plain] spread_def)
qed

lemma long_value_facts:
  "\<forall>b \<in> set long_value. (of_char b :: nat) \<le> 0x7F"
  "\<forall>c \<in> set long_value. plain_char c"
  "length long_value = 16313"
  by (simp_all add: long_value_def plain_char_def)

lemma long_record_extracted:
  "extractBackupZip (read_container (blocks 16384)
      (snd (createBackupZip sample_zip_env ''10'' [long_record])))
     = Inr [JObj long_record_garbled]"
  unfolding long_record_def long_record_garbled_def
  by (rule extract_split_character [OF long_value_facts])

lemma cafe_record_extracted:
  "extractBackupZip (read_container (blocks 37)
      (snd (createBackupZip sample_zip_env ''10'' [cafe_record])))
     = Inr [JObj cafe_record_garbled]"
  by code_simp

text \<open>
  Claim C2. A record list is written by \<^verbatim>\<open>createBackupZip\<close> and read back by
  \<^verbatim>\<open>extractBackupZip\<close>.
  \<^item> The list holds the one record \<open>long_record\<close> and the entry is read in blocks of
    16384 bytes. The first block ends with the first byte (C3) of the last character of
    the value and the second block starts with its second byte (A9). Each block is
    decoded on its own, each half becomes the replacement character, and the record
    extracted is not the record written.
  \<^item> The same happens to the short record \<open>cafe_record\<close> read in blocks of 37 bytes, a
    block size picked to show the effect on a text of 88 bytes.
  The claim says the records come back equal in content.
\<close>

theorem archive_round_trip_split_character:
  "extractBackupZip (read_container (blocks 16384)
      (snd (createBackupZip sample_zip_env ''10'' [long_record])))
     = Inr [JObj long_record_garbled] \<and>
   long_record_garbled \<noteq> long_record \<and>
   extractBackupZip (read_container (blocks 37)
      (snd (createBackupZip sample_zip_env ''10'' [cafe_record])))
     = Inr [JObj cafe_record_garbled] \<and>
   cafe_record_garbled \<noteq> cafe_record"
proof (intro conjI)
  show "long_record_garbled \<noteq> long_record"
    by (simp add: long_record_garbled_def long_record_def name_record_def replacement_def)
  show "cafe_record_garbled \<noteq> cafe_record"
    by (simp add: cafe_record_garbled_def cafe_record_def name_record_def replacement_def)
qed (rule long_record_extracted cafe_record_extracted)+

end
